theory Spec2Isabelle
  imports Main
begin

section \<open>Python values and exceptions\<close>

text \<open>
  Parameter values, long-term memory values and handler results are arbitrary Python
  objects obtained from JSON documents. Dictionaries that the router queries by key
  (\<open>params\<close>, a user's long-term memory, a handler's result object) are maps
  \<open>string \<rightharpoonup> pyval\<close>; a dictionary nested inside a value is an association list.
\<close>

datatype pyval =
    PNone
  | PBool bool
  | PInt int
  | PStr string
  | PList "pyval list"
  | PDict "(string \<times> pyval) list"

type_synonym pydict = "string \<rightharpoonup> pyval"

text \<open>
  An exception carries the text that \<open>str(e)\<close> yields. Only the exception classes
  that the router itself can provoke are told apart.
\<close>

datatype error =
    AttributeError string
  | TypeError string
  | KeyError string
  | Exception string

fun error_text :: "error \<Rightarrow> string" where
  "error_text (AttributeError m) = m"
| "error_text (TypeError m) = m"
| "error_text (KeyError m) = m"
| "error_text (Exception m) = m"

section \<open>utils/memory\_manager.py\<close>

text \<open>One message of the short-term transcript: \<open>{"role": ..., "content": ...}\<close>.\<close>

record message =
  role :: string
  content :: pyval

text \<open>
  \<open>MemoryManager\<close>: \<open>short_term_memory\<close> maps a user id to a
  \<open>deque(maxlen=stm_max_len)\<close>, \<open>long_term_memory\<close> maps a user id to a dictionary.
\<close>

record memory_manager =
  short_term_memory :: "string \<rightharpoonup> message list"
  long_term_memory :: "string \<rightharpoonup> pydict"
  stm_max_len :: nat

text \<open>\<open>__init__(self, stm_max_len: int = 20)\<close>; \<open>None\<close> stands for the default argument.\<close>

definition MemoryManager_init :: "nat option \<Rightarrow> memory_manager" where
  "MemoryManager_init arg =
     \<lparr> short_term_memory = Map.empty,
       long_term_memory = Map.empty,
       stm_max_len = (case arg of None \<Rightarrow> 20 | Some n \<Rightarrow> n) \<rparr>"

text \<open>
  \<open>deque.append\<close> on a deque with \<open>maxlen = n\<close>: the item is added on the right and,
  when the deque then holds more than \<open>n\<close> items, one item is dropped on the left.
\<close>

definition deque_append :: "nat \<Rightarrow> 'a list \<Rightarrow> 'a \<Rightarrow> 'a list" where
  "deque_append n d x = (let d' = d @ [x] in if n < length d' then tl d' else d')"

definition add_to_short_term :: "string \<Rightarrow> pyval \<Rightarrow> pyval \<Rightarrow> memory_manager \<Rightarrow> memory_manager" where
  "add_to_short_term uid user_input assistant_response m =
     (let d0 = (case short_term_memory m uid of None \<Rightarrow> [] | Some d \<Rightarrow> d);
          d1 = deque_append (stm_max_len m) d0 \<lparr> role = ''user'', content = user_input \<rparr>;
          d2 = deque_append (stm_max_len m) d1 \<lparr> role = ''assistant'', content = assistant_response \<rparr>
      in m \<lparr> short_term_memory := (short_term_memory m)(uid \<mapsto> d2) \<rparr>)"

definition get_short_term_history :: "string \<Rightarrow> memory_manager \<Rightarrow> message list" where
  "get_short_term_history uid m = (case short_term_memory m uid of None \<Rightarrow> [] | Some d \<Rightarrow> d)"

definition add_to_long_term :: "string \<Rightarrow> pydict \<Rightarrow> memory_manager \<Rightarrow> memory_manager" where
  "add_to_long_term uid data m =
     (let d0 = (case long_term_memory m uid of None \<Rightarrow> Map.empty | Some d \<Rightarrow> d)
      in m \<lparr> long_term_memory := (long_term_memory m)(uid \<mapsto> d0 ++ data) \<rparr>)"

definition get_from_long_term :: "string \<Rightarrow> string \<Rightarrow> memory_manager \<Rightarrow> pyval option" where
  "get_from_long_term uid key m =
     (case long_term_memory m uid of None \<Rightarrow> None | Some d \<Rightarrow> d key)"

definition get_all_long_term :: "string \<Rightarrow> memory_manager \<Rightarrow> pydict" where
  "get_all_long_term uid m = (case long_term_memory m uid of None \<Rightarrow> Map.empty | Some d \<Rightarrow> d)"

text \<open>
  \<open>remember_fact\<close>: the list stored under \<open>user_memos\<close> is created when the key is
  absent and the fact is appended to it. When the key holds a value that is not a list,
  \<open>.append\<close> raises \<open>AttributeError\<close>; the user then already had a dictionary holding
  the key, so nothing has been changed at that point.
\<close>

definition remember_fact :: "string \<Rightarrow> pyval \<Rightarrow> memory_manager \<Rightarrow> error + memory_manager" where
  "remember_fact uid fact' m =
     (let d0 = (case long_term_memory m uid of None \<Rightarrow> Map.empty | Some d \<Rightarrow> d);
          d1 = (if d0 ''user_memos'' = None then d0(''user_memos'' \<mapsto> PList []) else d0)
      in case d1 ''user_memos'' of
           Some (PList memos) \<Rightarrow>
             Inr (m \<lparr> long_term_memory :=
                        (long_term_memory m)(uid \<mapsto> d1(''user_memos'' \<mapsto> PList (memos @ [fact']))) \<rparr>)
         | _ \<Rightarrow> Inl (AttributeError ''object has no attribute append''))"

section \<open>String operations of the Python library\<close>

text \<open>\<open>m.replace('_', ' ')\<close>\<close>

definition replace_underscores :: "string \<Rightarrow> string" where
  "replace_underscores m = map (\<lambda>c. if c = CHR ''_'' then CHR '' '' else c) m"

text \<open>\<open>sep.join(xs)\<close>\<close>

fun str_join :: "string \<Rightarrow> string list \<Rightarrow> string" where
  "str_join sep [] = []"
| "str_join sep [x] = x"
| "str_join sep (x # y # ys) = x @ sep @ str_join sep (y # ys)"

text \<open>\<open>s.strip()\<close> and \<open>s.upper()\<close> on ASCII text.\<close>

definition is_whitespace :: "char \<Rightarrow> bool" where
  "is_whitespace c =
     (c \<in> set [CHR '' '', CHR 0x09, CHR 0x0A, CHR 0x0B, CHR 0x0C, CHR 0x0D,
                CHR 0x1C, CHR 0x1D, CHR 0x1E, CHR 0x1F])"

definition str_strip :: "string \<Rightarrow> string" where
  "str_strip s = rev (dropWhile is_whitespace (rev (dropWhile is_whitespace s)))"

definition str_upper :: "string \<Rightarrow> string" where
  "str_upper s =
     map (\<lambda>c. let n = (of_char c :: nat) in if 97 \<le> n \<and> n \<le> 122 then char_of (n - 32) else c) s"

text \<open>
  \<open>x += t\<close> for a string \<open>t\<close>: concatenation when \<open>x\<close> is a string, extension by
  the characters of \<open>t\<close> when \<open>x\<close> is a list, \<open>TypeError\<close> otherwise.
\<close>

fun iadd_str :: "pyval \<Rightarrow> string \<Rightarrow> error + pyval" where
  "iadd_str (PStr s) t = Inr (PStr (s @ t))"
| "iadd_str (PList xs) t = Inr (PList (xs @ map (\<lambda>c. PStr [c]) t))"
| "iadd_str v t = Inl (TypeError ''unsupported operand type(s) for +='')"

section \<open>master\_router.py: data\<close>

text \<open>
  The dictionary that \<open>extract_intent_and_args\<close> returns and that the router keeps as
  the pending command of a user.
\<close>

record parsed =
  agent :: string
  action :: string
  params :: pydict
  needs :: "string list"
  raw_input :: string

text \<open>
  A handler is the set of its callable attributes, by name. A callable has the parameter
  names of \<open>inspect.signature\<close> and a body. The router calls a body either with keyword
  arguments (\<open>method_to_call(**filtered_params)\<close>) or, for the chat agent, as
  \<open>chat_agent.run(raw_input, parsed)\<close>. A body returns a dictionary, or some other
  value that is given by its \<open>str()\<close>, or raises.
\<close>

datatype args = Kwargs pydict | RunArgs string parsed

datatype handler_result = RDict pydict | ROther string

record operation =
  sig_parameters :: "string list"
  call :: "args \<Rightarrow> error + handler_result"

type_synonym handler = "string \<rightharpoonup> operation"

text \<open>What \<open>process\<close> does: it returns a value or an exception escapes from it.\<close>

datatype outcome = Return pyval | Raise error

text \<open>
  The configuration (\<open>config.json\<close>: flags, action names, messages and response
  templates, each template as the function of its placeholders), the handler registry
  built from it, and the external collaborators of the router: the intent extractor, the
  commentary agent, the follow-up generator and the language model behind the memory
  query, the capability listing and the memory inference.
\<close>

record environment =
  mcp_servers :: "string \<rightharpoonup> handler"
  chat_agent_name :: string
  flag_none :: string
  chat_action_remember :: string
  chat_action_query_memory :: string
  chat_action_get_history :: string
  chat_action_show_capabilities :: string
  msg_action_complete :: string
  msg_remember_success :: "pyval \<Rightarrow> string"
  msg_memory_query_fail :: string
  msg_no_history :: string
  msg_history_header :: "message list \<Rightarrow> string"
  prompt_missing_params :: "string \<Rightarrow> string"
  prompt_unsupported_agent :: "string \<Rightarrow> string"
  prompt_unsupported_action :: "string \<Rightarrow> string \<Rightarrow> string"
  prompt_execution_error :: "string \<Rightarrow> string \<Rightarrow> string \<Rightarrow> string"
  followup_display_prefix :: string
  extract_intent_and_args :: "string \<Rightarrow> parsed option \<Rightarrow> message list \<Rightarrow> error + parsed"
  llm_unclear_command :: string
  beautify :: "string \<Rightarrow> pyval \<Rightarrow> pyval option \<Rightarrow> error + string"
  generate_followup :: "string \<Rightarrow> pyval \<Rightarrow> string"
  handle_memory_query :: "pydict \<Rightarrow> pyval \<Rightarrow> string"
  get_all_agents_capabilities :: string
  memory_storage_inference :: "string \<Rightarrow> string \<Rightarrow> pydict \<Rightarrow> pydict \<Rightarrow> error + string"
  json_loads :: "string \<Rightarrow> error + pyval"
  py_str :: "pyval \<Rightarrow> string"

text \<open>
  The mutable state of a \<open>MasterRouter\<close>. \<open>invoked\<close> is not a field of the class: it
  logs, in order, every handler operation that \<open>_route\<close> calls, with the arguments passed.
\<close>

record master_router =
  memory_manager :: memory_manager
  last_incomplete_command :: "string \<rightharpoonup> parsed"
  invoked :: "(string \<times> string \<times> args) list"

section \<open>master\_router.py: operations\<close>

text \<open>\<open>_reprompt_for_missing_params\<close>\<close>

definition reprompt_for_missing_params :: "environment \<Rightarrow> parsed \<Rightarrow> string" where
  "reprompt_for_missing_params env command_context =
     (let missing_params_display = map replace_underscores (needs command_context)
      in prompt_missing_params env (str_join '', '' missing_params_display))"

text \<open>\<open>remember_this\<close>, \<open>query_memory\<close> and \<open>get_chat_history\<close>, each followed by \<open>.get("result")\<close>.\<close>

definition remember_this :: "environment \<Rightarrow> string \<Rightarrow> pyval \<Rightarrow> string \<Rightarrow> master_router \<Rightarrow> outcome \<times> master_router" where
  "remember_this env uid fact' raw s =
     (case remember_fact uid fact' (memory_manager s) of
        Inl e \<Rightarrow> (Raise e, s)
      | Inr m \<Rightarrow>
          (let result = msg_remember_success env fact'
           in (Return (PStr result),
               s \<lparr> memory_manager := add_to_short_term uid (PStr raw) (PStr result) m \<rparr>)))"

definition query_memory :: "environment \<Rightarrow> string \<Rightarrow> pyval \<Rightarrow> string \<Rightarrow> master_router \<Rightarrow> outcome \<times> master_router" where
  "query_memory env uid query raw s =
     (let response = handle_memory_query env (get_all_long_term uid (memory_manager s)) query;
          result = (if response \<noteq> [] then response else msg_memory_query_fail env)
      in (Return (PStr result),
          s \<lparr> memory_manager := add_to_short_term uid (PStr raw) (PStr result) (memory_manager s) \<rparr>))"

definition get_chat_history :: "environment \<Rightarrow> string \<Rightarrow> string \<Rightarrow> master_router \<Rightarrow> outcome \<times> master_router" where
  "get_chat_history env uid raw s =
     (let stm_history = get_short_term_history uid (memory_manager s);
          result = (if stm_history = [] then msg_no_history env else msg_history_header env stm_history)
      in (Return (PStr result),
          s \<lparr> memory_manager := add_to_short_term uid (PStr raw) (PStr result) (memory_manager s) \<rparr>))"

text \<open>
  \<open>_infer_and_store_memory\<close>: the fixed rule for generated code, otherwise the answer of
  the language model to the inference prompt, which is built from the agent, the action,
  the parameters and the result object. A failure of the call or of \<open>json.loads\<close>, an
  empty answer, an answer that is not a dictionary, or an empty dictionary store nothing.
\<close>

definition infer_and_store_memory ::
    "environment \<Rightarrow> string \<Rightarrow> string \<Rightarrow> string \<Rightarrow> pydict \<Rightarrow> pydict \<Rightarrow> memory_manager \<Rightarrow> memory_manager" where
  "infer_and_store_memory env uid agent_name act ps result_obj m =
     (case (if agent_name = ''developer'' \<and> act = ''generate_code'' then result_obj ''result'' else None) of
        Some code \<Rightarrow> add_to_long_term uid [''code'' \<mapsto> code] m
      | None \<Rightarrow>
          (case memory_storage_inference env agent_name act ps result_obj of
             Inl e \<Rightarrow> m
           | Inr answer \<Rightarrow>
               (let json_str = str_strip answer
                in if json_str \<noteq> [] \<and> json_str \<noteq> ''{}''
                   then (case json_loads env json_str of
                           Inl e \<Rightarrow> m
                         | Inr (PDict kvs) \<Rightarrow> if kvs \<noteq> [] then add_to_long_term uid (map_of kvs) m else m
                         | Inr other \<Rightarrow> m)
                   else m)))"

text \<open>The f-string rendering of a value.\<close>

definition format_value :: "environment \<Rightarrow> pyval \<Rightarrow> string" where
  "format_value env v = (case v of PStr t \<Rightarrow> t | other \<Rightarrow> py_str env v)"

text \<open>
  \<open>_route\<close>, the branch of the chat agent that no special action takes:
  \<open>chat_agent.run(raw_input, parsed)\<close>, then the commentary agent.
\<close>

definition route_chat :: "environment \<Rightarrow> parsed \<Rightarrow> master_router \<Rightarrow> outcome \<times> master_router" where
  "route_chat env p s =
     (case mcp_servers env (chat_agent_name env) of
        None \<Rightarrow> (Raise (AttributeError ''NoneType object has no attribute run''), s)
      | Some chat_agent \<Rightarrow>
          (case chat_agent ''run'' of
             None \<Rightarrow> (Raise (AttributeError ''object has no attribute run''), s)
           | Some run \<Rightarrow>
               (let s1 = s \<lparr> invoked := invoked s @ [(chat_agent_name env, ''run'', RunArgs (raw_input p) p)] \<rparr>
                in case call run (RunArgs (raw_input p) p) of
                     Inl e \<Rightarrow> (Raise e, s1)
                   | Inr (ROther t) \<Rightarrow> (Raise (AttributeError ''object has no attribute get''), s1)
                   | Inr (RDict agent_response) \<Rightarrow>
                       (let raw_result = (case agent_response ''result'' of
                                            None \<Rightarrow> PStr (msg_action_complete env)
                                          | Some v \<Rightarrow> v)
                        in case beautify env (raw_input p) raw_result None of
                             Inl e \<Rightarrow> (Raise e, s1)
                           | Inr beautified_response \<Rightarrow>
                               (Return (if beautified_response \<noteq> [] then PStr beautified_response
                                        else raw_result), s1)))))"

text \<open>
  \<open>_route\<close>, lines 224 to 231: the text of the result, with the file content appended
  for \<open>get_file_content\<close>. The file path is read from the unfiltered parameters.
\<close>

definition result_text :: "environment \<Rightarrow> string \<Rightarrow> pydict \<Rightarrow> pydict \<Rightarrow> error + pyval" where
  "result_text env act ps result_obj =
     (let raw_result_text = (case result_obj ''result'' of
                               None \<Rightarrow> PStr (msg_action_complete env)
                             | Some v \<Rightarrow> v)
      in case (if act = ''get_file_content'' then result_obj ''content'' else None) of
           None \<Rightarrow> Inr raw_result_text
         | Some code_content \<Rightarrow>
             (let file_path = (case ps ''file_path'' of None \<Rightarrow> PStr ''the file'' | Some v \<Rightarrow> v)
              in iadd_str raw_result_text
                   ([CHR 0x0A, CHR 0x0A] @ ''Here is the content of '' @ [CHR 0x60]
                    @ format_value env file_path @ [CHR 0x60] @ '':'' @ [CHR 0x0A, CHR 0x0A]
                    @ [CHR 0x60, CHR 0x60, CHR 0x60] @ ''python'' @ [CHR 0x0A]
                    @ format_value env code_content @ [CHR 0x0A]
                    @ [CHR 0x60, CHR 0x60, CHR 0x60])))"

text \<open>
  \<open>_route\<close>, lines 237 to 246: the commentary agent, the fallback to the raw text, the
  follow-up suggestion and the final \<open>strip()\<close>.
\<close>

definition final_response :: "environment \<Rightarrow> string \<Rightarrow> pyval \<Rightarrow> pyval option \<Rightarrow> outcome" where
  "final_response env raw raw_result_text link =
     (case beautify env raw raw_result_text link of
        Inl e \<Rightarrow> Raise e
      | Inr beautified \<Rightarrow>
          (let final0 = (if beautified = [] \<or> str_strip beautified = []
                         then raw_result_text else PStr beautified);
               followup = generate_followup env raw raw_result_text;
               final1 = (if followup \<noteq> [] \<and> str_upper followup \<noteq> flag_none env
                         then iadd_str final0 ([CHR 0x0A, CHR 0x0A] @ followup_display_prefix env @ followup)
                         else Inr final0)
           in case final1 of
                Inl e \<Rightarrow> Raise e
              | Inr (PStr t) \<Rightarrow> Return (PStr (str_strip t))
              | Inr other \<Rightarrow> Raise (AttributeError ''object has no attribute strip'')))"

text \<open>
  \<open>_route\<close> from the call of the resolved operation on (lines 213 to 246): the
  parameters are filtered by the signature, the operation is called, an exception it
  raises becomes the execution-error response, and otherwise the result is normalised,
  memory is inferred and the turn is appended to the transcript before the response is
  composed.
\<close>

definition route_call ::
    "environment \<Rightarrow> parsed \<Rightarrow> string \<Rightarrow> operation \<Rightarrow> master_router \<Rightarrow> outcome \<times> master_router" where
  "route_call env p uid method_to_call s =
     (let agent_name = agent p; act = action p; ps = params p; raw = raw_input p;
          filtered_params = ps |` set (sig_parameters method_to_call);
          s1 = s \<lparr> invoked := invoked s @ [(agent_name, act, Kwargs filtered_params)] \<rparr>
      in case call method_to_call (Kwargs filtered_params) of
           Inl e \<Rightarrow> (Return (PStr (prompt_execution_error env agent_name act (error_text e))), s1)
         | Inr r \<Rightarrow>
             (let result_obj = (case r of RDict d \<Rightarrow> d | ROther t \<Rightarrow> [''result'' \<mapsto> PStr t])
              in case result_text env act ps result_obj of
                   Inl e \<Rightarrow> (Raise e, s1)
                 | Inr raw_result_text \<Rightarrow>
                     (let m1 = infer_and_store_memory env uid agent_name act ps result_obj (memory_manager s1);
                          m2 = add_to_short_term uid (PStr raw) raw_result_text m1
                      in (final_response env raw raw_result_text (result_obj ''link''),
                          s1 \<lparr> memory_manager := m2 \<rparr>))))"

text \<open>\<open>_route\<close>\<close>

definition route :: "environment \<Rightarrow> parsed \<Rightarrow> string \<Rightarrow> master_router \<Rightarrow> outcome \<times> master_router" where
  "route env p uid s =
     (let agent_name = agent p; act = action p; ps = params p; raw = raw_input p
      in if agent_name = chat_agent_name env
         then (if act = chat_action_remember env
               then remember_this env uid (case ps ''fact'' of None \<Rightarrow> PStr raw | Some v \<Rightarrow> v) raw s
               else if act = chat_action_query_memory env
               then query_memory env uid (case ps ''query'' of None \<Rightarrow> PStr raw | Some v \<Rightarrow> v) raw s
               else if act = chat_action_get_history env
               then get_chat_history env uid raw s
               else if act = chat_action_show_capabilities env
               then (Return (PStr (get_all_agents_capabilities env)), s)
               else route_chat env p s)
         else (case mcp_servers env agent_name of
                 None \<Rightarrow> (Return (PStr (prompt_unsupported_agent env agent_name)), s)
               | Some handler \<Rightarrow>
                   (case handler act of
                      None \<Rightarrow> (Return (PStr (prompt_unsupported_action env agent_name act)), s)
                    | Some method_to_call \<Rightarrow> route_call env p uid method_to_call s)))"

text \<open>\<open>_handle_incomplete_command\<close>\<close>

definition handle_incomplete_command ::
    "environment \<Rightarrow> string \<Rightarrow> parsed \<Rightarrow> master_router \<Rightarrow> outcome \<times> master_router" where
  "handle_incomplete_command env uid current_parsed s =
     (case last_incomplete_command s uid of
        None \<Rightarrow> (Raise (KeyError uid), s)
      | Some previous_ctx \<Rightarrow>
          (let original_needs = needs previous_ctx;
               merged = params previous_ctx ++ params current_parsed;
               remaining_needs = filter (\<lambda>field. merged field = None) original_needs
           in if remaining_needs = []
              then route env (previous_ctx \<lparr> params := merged \<rparr>) uid
                     (s \<lparr> last_incomplete_command := (last_incomplete_command s)(uid := None) \<rparr>)
              else (let ctx = previous_ctx \<lparr> params := merged, needs := remaining_needs \<rparr>
                    in (Return (PStr (reprompt_for_missing_params env ctx)),
                        s \<lparr> last_incomplete_command := (last_incomplete_command s)(uid \<mapsto> ctx) \<rparr>))))"

text \<open>
  \<open>process\<close>, lines 79 to 84: \<open>content\<close> is taken from the \<open>code\<close> entry of long-term
  memory when the parsed intent lists it among its needs; \<open>list.remove\<close> deletes the
  first occurrence.
\<close>

definition fill_content_from_memory :: "pydict \<Rightarrow> parsed \<Rightarrow> parsed" where
  "fill_content_from_memory ltm current_parsed =
     (case (if ''content'' \<in> set (needs current_parsed) then ltm ''code'' else None) of
        None \<Rightarrow> current_parsed
      | Some code \<Rightarrow>
          current_parsed \<lparr> params := (params current_parsed)(''content'' \<mapsto> code),
                           needs := remove1 ''content'' (needs current_parsed) \<rparr>)"

text \<open>\<open>process\<close>\<close>

definition process :: "environment \<Rightarrow> string \<Rightarrow> string \<Rightarrow> master_router \<Rightarrow> outcome \<times> master_router" where
  "process env uid user_input s =
     (case extract_intent_and_args env user_input (last_incomplete_command s uid)
             (get_short_term_history uid (memory_manager s)) of
        Inl e \<Rightarrow>
          (case last_incomplete_command s uid of
             Some pending \<Rightarrow> (Return (PStr (reprompt_for_missing_params env pending)), s)
           | None \<Rightarrow> (Return (PStr (llm_unclear_command env)), s))
      | Inr extracted \<Rightarrow>
          (let ltm = get_all_long_term uid (memory_manager s);
               current_parsed = fill_content_from_memory ltm (extracted \<lparr> raw_input := user_input \<rparr>)
           in if last_incomplete_command s uid \<noteq> None
              then handle_incomplete_command env uid current_parsed s
              else if needs current_parsed = []
              then route env current_parsed uid s
              else (Return (PStr (reprompt_for_missing_params env current_parsed)),
                    s \<lparr> last_incomplete_command := (last_incomplete_command s)(uid \<mapsto> current_parsed) \<rparr>)))"

section \<open>A sequence of turns of one user\<close>

text \<open>
  The pending commands that are stored for \<open>uid\<close> after each of the consecutive calls
  \<open>process(uid, user_input)\<close>, from a state in which a command is pending, up to the turn
  that dispatches it and deletes the entry.
\<close>

fun pending_trace :: "environment \<Rightarrow> string \<Rightarrow> string list \<Rightarrow> master_router \<Rightarrow> parsed list" where
  "pending_trace env uid [] s = []"
| "pending_trace env uid (user_input # rest) s =
     (case last_incomplete_command s uid of
        None \<Rightarrow> []
      | Some c \<Rightarrow>
          (let s' = snd (process env uid user_input s)
           in case last_incomplete_command s' uid of
                None \<Rightarrow> []
              | Some c' \<Rightarrow> c' # pending_trace env uid rest s'))"

section \<open>An example configuration\<close>

text \<open>
  A registry with a chat agent, whose only operation is \<open>run\<close>, and a repository agent
  with an operation that succeeds and one that raises; an extractor with a fixed answer
  for a few inputs; and a memory inference that proposes to store the \<open>note\<close> parameter
  when the parameters hold one.
\<close>

definition example_chat_agent :: handler where
  "example_chat_agent =
     [''run'' \<mapsto> \<lparr> sig_parameters = [''user_query'', ''parsed_input''],
                   call = (\<lambda>a. Inr (RDict [''result'' \<mapsto> PStr ''Hello!''])) \<rparr>]"

definition example_git_agent :: handler where
  "example_git_agent =
     [''list_repos'' \<mapsto> \<lparr> sig_parameters = [],
                          call = (\<lambda>a. Inr (RDict [''result'' \<mapsto> PStr ''Found 2 repositories.''])) \<rparr>,
      ''push_file'' \<mapsto> \<lparr> sig_parameters = [''repo_name'', ''file_path'', ''content'',
                                            ''commit_message'', ''branch'', ''sha''],
                         call = (\<lambda>a. Inr (RDict [''result'' \<mapsto> PStr ''File pushed.''])) \<rparr>,
      ''delete_repo'' \<mapsto> \<lparr> sig_parameters = [''repo_name''],
                           call = (\<lambda>a. Inl (Exception ''404 Not Found'')) \<rparr>]"

text \<open>Intents: a command that lacks two parameters, and turns that supply them.\<close>

definition example_pending :: parsed where
  "example_pending =
     \<lparr> agent = ''git'', action = ''push_file'',
       params = [''repo_name'' \<mapsto> PStr ''demo''],
       needs = [''file_path'', ''content''], raw_input = ''push it to demo'' \<rparr>"

definition example_file_path_intent :: parsed where
  "example_file_path_intent =
     \<lparr> agent = ''git'', action = ''push_file'',
       params = [''file_path'' \<mapsto> PStr ''main.py''],
       needs = [], raw_input = ''main.py'' \<rparr>"

definition example_content_intent :: parsed where
  "example_content_intent =
     \<lparr> agent = ''git'', action = ''push_file'',
       params = [''content'' \<mapsto> PStr ''print(2)''],
       needs = [], raw_input = ''print(2)'' \<rparr>"

definition example_both_intent :: parsed where
  "example_both_intent =
     \<lparr> agent = ''git'', action = ''push_file'',
       params = [''file_path'' \<mapsto> PStr ''main.py'', ''content'' \<mapsto> PStr ''print(2)''],
       needs = [], raw_input = ''main.py with print(2)'' \<rparr>"

definition example_extract :: "string \<Rightarrow> parsed option \<Rightarrow> message list \<Rightarrow> error + parsed" where
  "example_extract user_input pending stm =
     (if user_input = ''push it to demo'' then Inr example_pending
      else if user_input = ''main.py'' then Inr example_file_path_intent
      else if user_input = ''print(2)'' then Inr example_content_intent
      else if user_input = ''main.py with print(2)'' then Inr example_both_intent
      else Inr \<lparr> agent = ''unknown'', action = ''unknown'', params = Map.empty,
                 needs = [], raw_input = user_input \<rparr>)"

definition example_env :: environment where
  \<open>example_env =
     \<lparr> mcp_servers = [''chat'' \<mapsto> example_chat_agent, ''git'' \<mapsto> example_git_agent],
       chat_agent_name = ''chat'',
       flag_none = ''NONE'',
       chat_action_remember = ''remember_this'',
       chat_action_query_memory = ''query_memory'',
       chat_action_get_history = ''get_chat_history'',
       chat_action_show_capabilities = ''show_capabilities'',
       msg_action_complete = ''Action complete.'',
       msg_remember_success = (\<lambda>f. ''I will remember that.''),
       msg_memory_query_fail = ''I do not know.'',
       msg_no_history = ''No history yet.'',
       msg_history_header = (\<lambda>h. ''Here is our conversation.''),
       prompt_missing_params = (\<lambda>n. ''Please provide: '' @ n),
       prompt_unsupported_agent = (\<lambda>a. ''Unsupported agent: '' @ a),
       prompt_unsupported_action = (\<lambda>a b. ''Agent '' @ a @ '' does not support '' @ b),
       prompt_execution_error = (\<lambda>a b e. a @ '' '' @ b @ '' failed: '' @ e),
       followup_display_prefix = ''Next: '',
       extract_intent_and_args = example_extract,
       llm_unclear_command = ''Sorry, I did not understand.'',
       beautify = (\<lambda>u r l. Inr []),
       generate_followup = (\<lambda>u r. []),
       handle_memory_query = (\<lambda>l q. []),
       get_all_agents_capabilities = ''I can chat and manage repositories.'',
       memory_storage_inference =
         (\<lambda>a b ps r. if ps ''note'' = None then Inr ''{}'' else Inr ''{"note": "x"}''),
       json_loads =
         (\<lambda>t. if t = ''{"note": "x"}'' then Inr (PDict [(''note'', PStr ''x'')])
              else Inl (Exception ''JSONDecodeError'')),
       py_str = (\<lambda>v. ''?'') \<rparr>\<close>

text \<open>The router after \<open>__init__\<close>: \<open>MemoryManager()\<close>, no pending command.\<close>

definition MasterRouter_init :: master_router where
  "MasterRouter_init =
     \<lparr> memory_manager = MemoryManager_init None,
       last_incomplete_command = Map.empty,
       invoked = [] \<rparr>"

text \<open>
  Routers of the user \<open>cli\<close>: one with \<open>example_pending\<close> stored, one in which the
  pending command lacks only \<open>content\<close>, and one whose long-term memory holds \<open>code\<close>.
\<close>

definition example_router :: master_router where
  "example_router = MasterRouter_init \<lparr> last_incomplete_command := [''cli'' \<mapsto> example_pending] \<rparr>"

definition example_router_content :: master_router where
  "example_router_content =
     MasterRouter_init
       \<lparr> last_incomplete_command :=
           [''cli'' \<mapsto> example_pending \<lparr> params := [''repo_name'' \<mapsto> PStr ''demo'',
                                                    ''file_path'' \<mapsto> PStr ''main.py''],
                                         needs := [''content''] \<rparr>] \<rparr>"

definition example_router_code :: master_router where
  "example_router_code =
     MasterRouter_init
       \<lparr> memory_manager :=
           (MemoryManager_init None) \<lparr> long_term_memory := [''cli'' \<mapsto> [''code'' \<mapsto> PStr ''print(1)'']] \<rparr> \<rparr>"

text \<open>A memory in which the user \<open>cli\<close> has one memo.\<close>

definition example_memos :: memory_manager where
  "example_memos =
     (MemoryManager_init None)
       \<lparr> long_term_memory := [''cli'' \<mapsto> [''user_memos'' \<mapsto> PList [PStr ''my name is Ann'']]] \<rparr>"

text \<open>
  The router in which the pending command lacks only \<open>content\<close> while the long-term
  memory of the user holds \<open>code\<close>.
\<close>

definition example_router_content_code :: master_router where
  "example_router_content_code =
     example_router_content
       \<lparr> memory_manager :=
           (MemoryManager_init None) \<lparr> long_term_memory := [''cli'' \<mapsto> [''code'' \<mapsto> PStr ''print(1)'']] \<rparr> \<rparr>"

text \<open>
  Complete commands: one whose operation raises, one whose operation takes no
  parameter, and two for the chat agent, whose handler has neither a \<open>chat\<close> nor a
  \<open>remember_this\<close> operation.
\<close>

definition example_delete_intent :: parsed where
  "example_delete_intent =
     \<lparr> agent = ''git'', action = ''delete_repo'',
       params = [''repo_name'' \<mapsto> PStr ''demo''],
       needs = [], raw_input = ''delete demo'' \<rparr>"

definition example_list_intent :: parsed where
  "example_list_intent =
     \<lparr> agent = ''git'', action = ''list_repos'',
       params = Map.empty,
       needs = [], raw_input = ''list my repos'' \<rparr>"

definition example_chat_intent :: parsed where
  "example_chat_intent =
     \<lparr> agent = ''chat'', action = ''chat'',
       params = Map.empty,
       needs = [], raw_input = ''hello'' \<rparr>"

definition example_remember_intent :: parsed where
  "example_remember_intent =
     \<lparr> agent = ''chat'', action = ''remember_this'',
       params = [''fact'' \<mapsto> PStr ''buy milk''],
       needs = [], raw_input = ''remember to buy milk'' \<rparr>"

text \<open>
  An intent whose needs name \<open>content\<close> twice, as the extractor may return it (it
  takes the \<open>needs\<close> list of the language model as it is), and the configuration in
  which the extractor returns this intent.
\<close>

definition example_duplicate_intent :: parsed where
  "example_duplicate_intent =
     \<lparr> agent = ''git'', action = ''push_file'',
       params = [''repo_name'' \<mapsto> PStr ''demo''],
       needs = [''content'', ''file_path'', ''content''], raw_input = ''push my code to demo'' \<rparr>"

definition example_env_duplicate :: environment where
  "example_env_duplicate =
     example_env \<lparr> extract_intent_and_args := (\<lambda>user_input pending stm. Inr example_duplicate_intent) \<rparr>"

section \<open>The short-term transcript\<close>

lemma deque_append_full:
  "length d = n \<Longrightarrow> deque_append n d x = tl (d @ [x])"
  by (simp add: deque_append_def Let_def)

lemma deque_append_room:
  "length d < n \<Longrightarrow> deque_append n d x = d @ [x]"
  by (simp add: deque_append_def Let_def)

lemma deque_append_length:
  "length d \<le> n \<Longrightarrow> length (deque_append n d x) \<le> n"
  by (auto simp: deque_append_def Let_def)

lemma fold_deque_append:
  "length d \<le> n \<Longrightarrow>
     fold (\<lambda>x d. deque_append n d x) xs d = drop (length d + length xs - n) (d @ xs)"
proof (induction xs arbitrary: d)
  case Nil
  then show ?case by simp
next
  case (Cons x xs)
  show ?case
  proof (cases "length d = n")
    case True
    have e: "deque_append n d x = tl (d @ [x])"
      using True by (rule deque_append_full)
    have le: "length (tl (d @ [x])) \<le> n"
      using True by simp
    have "fold (\<lambda>x d. deque_append n d x) (x # xs) d =
            drop (length (tl (d @ [x])) + length xs - n) (tl (d @ [x]) @ xs)"
      using Cons.IH [OF le] by (simp add: e)
    also have "\<dots> = drop (length xs) (tl (d @ x # xs))"
      using True by (cases d) simp_all
    also have "\<dots> = drop (Suc (length xs)) (d @ x # xs)"
      by (simp only: drop_Suc)
    also have "\<dots> = drop (length d + length (x # xs) - n) (d @ x # xs)"
      using True by simp
    finally show ?thesis .
  next
    case False
    then have lt: "length d < n" using Cons.prems by simp
    have e: "deque_append n d x = d @ [x]"
      using lt by (rule deque_append_room)
    have le: "length (d @ [x]) \<le> n"
      using lt by simp
    show ?thesis
      using Cons.IH [OF le] by (simp add: e)
  qed
qed

lemma fold_deque_append_length:
  "length d \<le> n \<Longrightarrow> length (fold (\<lambda>x d. deque_append n d x) xs d) \<le> n"
  by (induction xs arbitrary: d) (simp_all add: deque_append_length)

lemma add_to_short_term_fold:
  "get_short_term_history uid (add_to_short_term uid u a m) =
     fold (\<lambda>x d. deque_append (stm_max_len m) d x)
       [\<lparr>role = ''user'', content = u\<rparr>, \<lparr>role = ''assistant'', content = a\<rparr>]
       (get_short_term_history uid m)"
  by (simp add: add_to_short_term_def get_short_term_history_def Let_def)

lemma add_to_short_term_other:
  "uid' \<noteq> uid \<Longrightarrow> get_short_term_history uid' (add_to_short_term uid u a m) = get_short_term_history uid' m"
  by (simp add: add_to_short_term_def get_short_term_history_def Let_def)

lemma add_to_short_term_frame:
  "stm_max_len (add_to_short_term uid u a m) = stm_max_len m \<and>
   long_term_memory (add_to_short_term uid u a m) = long_term_memory m"
  by (simp add: add_to_short_term_def Let_def)

text \<open>
  Claim C8. Recording one interaction appends a \<open>user\<close> entry and then an \<open>assistant\<close>
  entry to the transcript of the user and keeps the most recent \<open>stm_max_len\<close> entries
  of the result, in insertion order; the bound is 20 by default. Pushing entries one by
  one onto an empty transcript capped at \<open>n\<close> leaves the last \<open>n\<close> of them, so that
  after \<open>n + 1\<close> pushes exactly the first one is gone.
\<close>

theorem short_term_transcript:
  "(length (get_short_term_history uid m) \<le> stm_max_len m \<longrightarrow>
      get_short_term_history uid (add_to_short_term uid u a m) =
        drop (length (get_short_term_history uid m) + 2 - stm_max_len m)
          (get_short_term_history uid m @
             [\<lparr>role = ''user'', content = u\<rparr>, \<lparr>role = ''assistant'', content = a\<rparr>])
      \<and> length (get_short_term_history uid (add_to_short_term uid u a m)) \<le> stm_max_len m)
   \<and> (length xs = Suc n \<longrightarrow> fold (\<lambda>x d. deque_append n d x) xs [] = tl xs)
   \<and> fold (\<lambda>x d. deque_append n d x) xs [] = drop (length xs - n) xs
   \<and> stm_max_len (MemoryManager_init None) = 20
   \<and> get_short_term_history uid (MemoryManager_init k) = []"
proof -
  have step: "length (get_short_term_history uid m) \<le> stm_max_len m \<longrightarrow>
      get_short_term_history uid (add_to_short_term uid u a m) =
        drop (length (get_short_term_history uid m) + 2 - stm_max_len m)
          (get_short_term_history uid m @
             [\<lparr>role = ''user'', content = u\<rparr>, \<lparr>role = ''assistant'', content = a\<rparr>])
      \<and> length (get_short_term_history uid (add_to_short_term uid u a m)) \<le> stm_max_len m"
  proof
    assume le: "length (get_short_term_history uid m) \<le> stm_max_len m"
    have "fold (\<lambda>x d. deque_append (stm_max_len m) d x)
            [\<lparr>role = ''user'', content = u\<rparr>, \<lparr>role = ''assistant'', content = a\<rparr>]
            (get_short_term_history uid m) =
          drop (length (get_short_term_history uid m)
                + length [\<lparr>role = ''user'', content = u\<rparr>, \<lparr>role = ''assistant'', content = a\<rparr>]
                - stm_max_len m)
            (get_short_term_history uid m @
               [\<lparr>role = ''user'', content = u\<rparr>, \<lparr>role = ''assistant'', content = a\<rparr>])"
      using le by (rule fold_deque_append)
    moreover have "length [\<lparr>role = ''user'', content = u\<rparr>, \<lparr>role = ''assistant'', content = a\<rparr>] = 2"
      by simp
    moreover have "length (fold (\<lambda>x d. deque_append (stm_max_len m) d x)
            [\<lparr>role = ''user'', content = u\<rparr>, \<lparr>role = ''assistant'', content = a\<rparr>]
            (get_short_term_history uid m)) \<le> stm_max_len m"
      using le by (rule fold_deque_append_length)
    ultimately show "get_short_term_history uid (add_to_short_term uid u a m) =
        drop (length (get_short_term_history uid m) + 2 - stm_max_len m)
          (get_short_term_history uid m @
             [\<lparr>role = ''user'', content = u\<rparr>, \<lparr>role = ''assistant'', content = a\<rparr>])
      \<and> length (get_short_term_history uid (add_to_short_term uid u a m)) \<le> stm_max_len m"
      by (simp only: add_to_short_term_fold)
  qed
  have all: "fold (\<lambda>x d. deque_append n d x) xs [] = drop (length xs - n) xs"
    using fold_deque_append [of "[]" n xs] by simp
  have plus1: "length xs = Suc n \<longrightarrow> fold (\<lambda>x d. deque_append n d x) xs [] = tl xs"
    by (simp add: all drop_Suc)
  have init: "stm_max_len (MemoryManager_init None) = 20
     \<and> get_short_term_history uid (MemoryManager_init k) = []"
    by (simp add: MemoryManager_init_def get_short_term_history_def)
  show ?thesis using step all plus1 init by blast
qed


theorem short_term_transcript_witness:
  "get_short_term_history ''cli''
     (add_to_short_term ''cli'' (PStr ''c'') (PStr ''d'')
        (add_to_short_term ''cli'' (PStr ''a'') (PStr ''b'') (MemoryManager_init (Some 3)))) =
     [\<lparr>role = ''assistant'', content = PStr ''b''\<rparr>,
      \<lparr>role = ''user'', content = PStr ''c''\<rparr>,
      \<lparr>role = ''assistant'', content = PStr ''d''\<rparr>]
   \<and> fold (\<lambda>x d. deque_append 2 d x) [1, 2, 3 :: nat] [] = [2, 3]"
proof -
  let ?m = "add_to_short_term ''cli'' (PStr ''a'') (PStr ''b'') (MemoryManager_init (Some 3))"
  have h: "get_short_term_history ''cli'' ?m =
             [\<lparr>role = ''user'', content = PStr ''a''\<rparr>, \<lparr>role = ''assistant'', content = PStr ''b''\<rparr>]"
    by (simp add: add_to_short_term_def get_short_term_history_def MemoryManager_init_def
          deque_append_def Let_def)
  have n: "stm_max_len ?m = 3"
    by (simp add: add_to_short_term_def MemoryManager_init_def Let_def)
  show ?thesis
    using short_term_transcript [where uid = "''cli''" and m = ?m and u = "PStr ''c''"
        and a = "PStr ''d''" and xs = "[1, 2, 3 :: nat]" and n = 2]
    by (simp add: h n)
qed

section \<open>Long-term memory\<close>

lemma add_to_long_term_lookup:
  "get_from_long_term uid k (add_to_long_term uid data m) =
     (case data k of Some v \<Rightarrow> Some v | None \<Rightarrow> get_from_long_term uid k m)"
  by (simp add: add_to_long_term_def get_from_long_term_def Let_def map_add_def
        split: option.splits)

lemma add_to_long_term_other_user:
  "uid' \<noteq> uid \<Longrightarrow> long_term_memory (add_to_long_term uid data m) uid' = long_term_memory m uid'"
  by (simp add: add_to_long_term_def Let_def)

lemma add_to_long_term_frame:
  "short_term_memory (add_to_long_term uid data m) = short_term_memory m \<and>
   stm_max_len (add_to_long_term uid data m) = stm_max_len m"
  by (simp add: add_to_long_term_def Let_def)

lemma remember_fact_new_list:
  assumes "get_from_long_term uid ''user_memos'' m = None"
  shows "remember_fact uid f m =
           Inr (m \<lparr> long_term_memory :=
                  (long_term_memory m)(uid \<mapsto> (get_all_long_term uid m)(''user_memos'' \<mapsto> PList [f])) \<rparr>)"
proof (cases "long_term_memory m uid")
  case None
  then show ?thesis
    by (simp add: remember_fact_def get_all_long_term_def)
next
  case (Some d)
  then have "d ''user_memos'' = None"
    using assms by (simp add: get_from_long_term_def)
  then show ?thesis
    using Some by (simp add: remember_fact_def get_all_long_term_def)
qed

lemma remember_fact_old_list:
  assumes "get_from_long_term uid ''user_memos'' m = Some (PList memos)"
  shows "remember_fact uid f m =
           Inr (m \<lparr> long_term_memory :=
                  (long_term_memory m)(uid \<mapsto> (get_all_long_term uid m)(''user_memos'' \<mapsto> PList (memos @ [f]))) \<rparr>)"
proof (cases "long_term_memory m uid")
  case None
  then show ?thesis
    using assms by (simp add: get_from_long_term_def)
next
  case (Some d)
  then have "d ''user_memos'' = Some (PList memos)"
    using assms by (simp add: get_from_long_term_def)
  then show ?thesis
    using Some by (simp add: remember_fact_def get_all_long_term_def)
qed

lemma long_term_entry_replaced:
  "get_from_long_term uid ''user_memos''
     (m \<lparr> long_term_memory := (long_term_memory m)(uid \<mapsto> (get_all_long_term uid m)(''user_memos'' \<mapsto> v)) \<rparr>) = Some v
   \<and> (\<forall>k. k \<noteq> ''user_memos'' \<longrightarrow>
         get_from_long_term uid k
           (m \<lparr> long_term_memory := (long_term_memory m)(uid \<mapsto> (get_all_long_term uid m)(''user_memos'' \<mapsto> v)) \<rparr>)
         = get_from_long_term uid k m)
   \<and> (\<forall>u. u \<noteq> uid \<longrightarrow>
         long_term_memory
           (m \<lparr> long_term_memory := (long_term_memory m)(uid \<mapsto> (get_all_long_term uid m)(''user_memos'' \<mapsto> v)) \<rparr>) u
         = long_term_memory m u)
   \<and> short_term_memory
         (m \<lparr> long_term_memory := (long_term_memory m)(uid \<mapsto> (get_all_long_term uid m)(''user_memos'' \<mapsto> v)) \<rparr>)
       = short_term_memory m"
  by (simp add: get_from_long_term_def get_all_long_term_def split: option.splits)

lemma remember_fact_absent:
  assumes "get_from_long_term uid ''user_memos'' m = None"
  shows "\<exists>m'. remember_fact uid f m = Inr m'
           \<and> get_from_long_term uid ''user_memos'' m' = Some (PList [f])
           \<and> (\<forall>k. k \<noteq> ''user_memos'' \<longrightarrow> get_from_long_term uid k m' = get_from_long_term uid k m)
           \<and> (\<forall>u. u \<noteq> uid \<longrightarrow> long_term_memory m' u = long_term_memory m u)
           \<and> short_term_memory m' = short_term_memory m"
  using remember_fact_new_list [OF assms, of f] long_term_entry_replaced [of uid m "PList [f]"]
  by blast

lemma remember_fact_append:
  assumes "get_from_long_term uid ''user_memos'' m = Some (PList memos)"
  shows "\<exists>m'. remember_fact uid f m = Inr m'
           \<and> get_from_long_term uid ''user_memos'' m' = Some (PList (memos @ [f]))
           \<and> (\<forall>k. k \<noteq> ''user_memos'' \<longrightarrow> get_from_long_term uid k m' = get_from_long_term uid k m)
           \<and> (\<forall>u. u \<noteq> uid \<longrightarrow> long_term_memory m' u = long_term_memory m u)
           \<and> short_term_memory m' = short_term_memory m"
  using remember_fact_old_list [OF assms, of f] long_term_entry_replaced [of uid m "PList (memos @ [f])"]
  by blast

text \<open>
  Claim C9, as amended. \<open>remember_fact\<close> appends the fact to the list stored under
  \<open>user_memos\<close>, creating the list when the key is absent, and leaves every other key,
  every other user and the transcripts as they were. \<open>add_to_long_term\<close> overwrites each
  key of the update and keeps each other key; \<open>user_memos\<close> is treated like any other
  key, so an update that carries it replaces the stored memos.
\<close>

theorem long_term_memory_updates:
  "(get_from_long_term uid ''user_memos'' m = None \<longrightarrow>
      (\<exists>m'. remember_fact uid f m = Inr m'
           \<and> get_from_long_term uid ''user_memos'' m' = Some (PList [f])
           \<and> (\<forall>k. k \<noteq> ''user_memos'' \<longrightarrow> get_from_long_term uid k m' = get_from_long_term uid k m)
           \<and> (\<forall>u. u \<noteq> uid \<longrightarrow> long_term_memory m' u = long_term_memory m u)
           \<and> short_term_memory m' = short_term_memory m))
   \<and> (get_from_long_term uid ''user_memos'' m = Some (PList memos) \<longrightarrow>
      (\<exists>m'. remember_fact uid f m = Inr m'
           \<and> get_from_long_term uid ''user_memos'' m' = Some (PList (memos @ [f]))
           \<and> (\<forall>k. k \<noteq> ''user_memos'' \<longrightarrow> get_from_long_term uid k m' = get_from_long_term uid k m)
           \<and> (\<forall>u. u \<noteq> uid \<longrightarrow> long_term_memory m' u = long_term_memory m u)
           \<and> short_term_memory m' = short_term_memory m))
   \<and> get_from_long_term uid k (add_to_long_term uid data m) =
        (case data k of Some v \<Rightarrow> Some v | None \<Rightarrow> get_from_long_term uid k m)
   \<and> (uid' \<noteq> uid \<longrightarrow> long_term_memory (add_to_long_term uid data m) uid' = long_term_memory m uid')"
  using remember_fact_absent [of uid m f] remember_fact_append [of uid m memos f]
    add_to_long_term_lookup [of uid k data m] add_to_long_term_other_user [of uid' uid data m]
  by blast

theorem long_term_memory_updates_witness:
  "(\<exists>m'. remember_fact ''cli'' (PStr ''I like tea'') example_memos = Inr m'
        \<and> get_from_long_term ''cli'' ''user_memos'' m' =
            Some (PList [PStr ''my name is Ann'', PStr ''I like tea'']))
   \<and> (\<exists>m'. remember_fact ''cli'' (PStr ''I like tea'') (MemoryManager_init None) = Inr m'
        \<and> get_from_long_term ''cli'' ''user_memos'' m' = Some (PList [PStr ''I like tea'']))
   \<and> get_from_long_term ''cli'' ''user_memos''
        (add_to_long_term ''cli'' [''code'' \<mapsto> PStr ''print(1)''] example_memos) =
          Some (PList [PStr ''my name is Ann''])
   \<and> get_from_long_term ''cli'' ''code''
        (add_to_long_term ''cli'' [''code'' \<mapsto> PStr ''print(1)''] example_memos) =
          Some (PStr ''print(1)'')"
proof -
  have a: "get_from_long_term ''cli'' ''user_memos'' example_memos = Some (PList [PStr ''my name is Ann''])"
    by (simp add: example_memos_def get_from_long_term_def)
  have b: "get_from_long_term ''cli'' ''user_memos'' (MemoryManager_init None) = None"
    by (simp add: MemoryManager_init_def get_from_long_term_def)
  have c: "[''code'' \<mapsto> PStr ''print(1)''] ''user_memos'' = None"
       "[''code'' \<mapsto> PStr ''print(1)''] ''code'' = Some (PStr ''print(1)'')"
    by simp_all
  have t1: "\<exists>m'. remember_fact ''cli'' (PStr ''I like tea'') example_memos = Inr m'
        \<and> get_from_long_term ''cli'' ''user_memos'' m' =
            Some (PList [PStr ''my name is Ann'', PStr ''I like tea''])"
    using long_term_memory_updates [of "''cli''" example_memos "PStr ''I like tea''"
        "[PStr ''my name is Ann'']" "''user_memos''" Map.empty "''cli''"] a
    by auto
  have t2: "\<exists>m'. remember_fact ''cli'' (PStr ''I like tea'') (MemoryManager_init None) = Inr m'
        \<and> get_from_long_term ''cli'' ''user_memos'' m' = Some (PList [PStr ''I like tea''])"
    using long_term_memory_updates [of "''cli''" "MemoryManager_init None" "PStr ''I like tea''"
        "[]" "''user_memos''" Map.empty "''cli''"] b
    by auto
  have t3: "get_from_long_term ''cli'' ''user_memos''
        (add_to_long_term ''cli'' [''code'' \<mapsto> PStr ''print(1)''] example_memos) =
          Some (PList [PStr ''my name is Ann''])"
    using long_term_memory_updates [of "''cli''" example_memos "PStr ''I like tea''"
        "[PStr ''my name is Ann'']" "''user_memos''" "[''code'' \<mapsto> PStr ''print(1)'']" "''cli''"] a c
    by simp
  have t4: "get_from_long_term ''cli'' ''code''
        (add_to_long_term ''cli'' [''code'' \<mapsto> PStr ''print(1)''] example_memos) =
          Some (PStr ''print(1)'')"
    using long_term_memory_updates [of "''cli''" example_memos "PStr ''I like tea''"
        "[PStr ''my name is Ann'']" "''code''" "[''code'' \<mapsto> PStr ''print(1)'']" "''cli''"] c
    by simp
  show ?thesis
    using t1 t2 t3 t4 by blast
qed

text \<open>
  The claim as stated fails: a merge whose update holds \<open>user_memos\<close> overwrites the memos.
\<close>

theorem user_memos_overwritten_counterexample:
  "get_from_long_term ''cli'' ''user_memos'' example_memos = Some (PList [PStr ''my name is Ann''])
   \<and> get_from_long_term ''cli'' ''user_memos''
        (add_to_long_term ''cli'' [''user_memos'' \<mapsto> PList []] example_memos) = Some (PList [])"
  by (simp add: example_memos_def add_to_long_term_def get_from_long_term_def Let_def)

section \<open>What dispatch leaves untouched\<close>

lemma remember_this_pending:
  "last_incomplete_command (snd (remember_this env uid f raw s)) = last_incomplete_command s"
  by (simp add: remember_this_def Let_def split: sum.splits)

lemma query_memory_pending:
  "last_incomplete_command (snd (query_memory env uid q raw s)) = last_incomplete_command s"
  by (simp add: query_memory_def Let_def)

lemma get_chat_history_pending:
  "last_incomplete_command (snd (get_chat_history env uid raw s)) = last_incomplete_command s"
  by (simp add: get_chat_history_def Let_def)

lemma route_chat_pending:
  "last_incomplete_command (snd (route_chat env p s)) = last_incomplete_command s"
  by (simp add: route_chat_def Let_def split: option.splits sum.splits handler_result.splits)

lemma route_call_pending:
  "last_incomplete_command (snd (route_call env p uid method s)) = last_incomplete_command s"
  by (simp add: route_call_def Let_def split: sum.splits)

lemma route_pending:
  "last_incomplete_command (snd (route env p uid s)) = last_incomplete_command s"
  by (simp add: route_def Let_def remember_this_pending query_memory_pending
        get_chat_history_pending route_chat_pending route_call_pending split: option.splits)

section \<open>The merge turn\<close>

lemma handle_incomplete_command_dispatch:
  assumes "last_incomplete_command s uid = Some C"
    and "filter (\<lambda>k. (params C ++ params P) k = None) (needs C) = []"
  shows "handle_incomplete_command env uid P s =
           route env (C \<lparr> params := params C ++ params P \<rparr>) uid
             (s \<lparr> last_incomplete_command := (last_incomplete_command s)(uid := None) \<rparr>)"
  using assms by (simp add: handle_incomplete_command_def Let_def)

lemma handle_incomplete_command_reprompt:
  assumes "last_incomplete_command s uid = Some C"
    and "filter (\<lambda>k. (params C ++ params P) k = None) (needs C) \<noteq> []"
  shows "handle_incomplete_command env uid P s =
           (Return (PStr (reprompt_for_missing_params env
                      (C \<lparr> params := params C ++ params P,
                           needs := filter (\<lambda>k. (params C ++ params P) k = None) (needs C) \<rparr>))),
            s \<lparr> last_incomplete_command := (last_incomplete_command s)
                   (uid \<mapsto> C \<lparr> params := params C ++ params P,
                               needs := filter (\<lambda>k. (params C ++ params P) k = None) (needs C) \<rparr>) \<rparr>)"
  using assms by (simp add: handle_incomplete_command_def Let_def)

lemma merged_lookup:
  "(m ++ n) k = (case n k of Some v \<Rightarrow> Some v | None \<Rightarrow> m k)"
  by (simp add: map_add_def)

lemma merged_absent:
  "((m ++ n) k = None) = (k \<notin> dom m \<and> k \<notin> dom n)"
  by (auto simp: map_add_def split: option.splits)

lemma handle_incomplete_command_deleted:
  assumes "last_incomplete_command s uid = Some C"
    and "filter (\<lambda>k. (params C ++ params P) k = None) (needs C) = []"
  shows "last_incomplete_command (snd (handle_incomplete_command env uid P s)) uid = None"
  by (simp add: handle_incomplete_command_dispatch [OF assms] route_pending)

lemma handle_incomplete_command_other_users:
  assumes "u \<noteq> uid"
  shows "last_incomplete_command (snd (handle_incomplete_command env uid P s)) u
           = last_incomplete_command s u"
  using assms
  by (simp add: handle_incomplete_command_def Let_def route_pending split: option.splits)

text \<open>
  Claim C1. With a command \<open>C\<close> pending for the user, a turn that brings the parsed
  intent \<open>P\<close> merges the parameters (a key of \<open>P\<close> wins), keeps of the needs of \<open>C\<close>, in
  their order, those that neither parameter dictionary holds, and then either deletes
  the entry and dispatches \<open>C\<close> with the merged parameters, when nothing remains, or
  stores \<open>C\<close> with the merged parameters and the remaining needs and answers with the
  reprompt for these needs, leaving memory untouched and calling no handler.
\<close>

theorem merge_turn:
  fixes C P :: parsed
  defines "merged \<equiv> params C ++ params P"
  defines "remaining \<equiv> filter (\<lambda>k. k \<notin> dom (params C) \<and> k \<notin> dom (params P)) (needs C)"
  assumes pending: "last_incomplete_command s uid = Some C"
  shows "(\<forall>k. merged k = (case params P k of Some v \<Rightarrow> Some v | None \<Rightarrow> params C k))
    \<and> (remaining = [] \<longrightarrow>
          handle_incomplete_command env uid P s =
            route env (C \<lparr> params := merged \<rparr>) uid
              (s \<lparr> last_incomplete_command := (last_incomplete_command s)(uid := None) \<rparr>)
          \<and> last_incomplete_command (snd (handle_incomplete_command env uid P s)) uid = None)
    \<and> (remaining \<noteq> [] \<longrightarrow>
          handle_incomplete_command env uid P s =
            (Return (PStr (prompt_missing_params env
                       (str_join '', '' (map replace_underscores remaining)))),
             s \<lparr> last_incomplete_command := (last_incomplete_command s)
                    (uid \<mapsto> C \<lparr> params := merged, needs := remaining \<rparr>) \<rparr>))"
proof -
  have r: "remaining = filter (\<lambda>k. (params C ++ params P) k = None) (needs C)"
    unfolding remaining_def by (rule filter_cong) (auto simp: domIff)
  have a: "\<forall>k. merged k = (case params P k of Some v \<Rightarrow> Some v | None \<Rightarrow> params C k)"
    by (simp add: merged_def merged_lookup)
  have b: "remaining = [] \<longrightarrow>
          handle_incomplete_command env uid P s =
            route env (C \<lparr> params := merged \<rparr>) uid
              (s \<lparr> last_incomplete_command := (last_incomplete_command s)(uid := None) \<rparr>)
          \<and> last_incomplete_command (snd (handle_incomplete_command env uid P s)) uid = None"
    using handle_incomplete_command_dispatch [OF pending, of P env]
      handle_incomplete_command_deleted [OF pending, of P env]
    by (simp add: r merged_def)
  have c: "remaining \<noteq> [] \<longrightarrow>
          handle_incomplete_command env uid P s =
            (Return (PStr (prompt_missing_params env
                       (str_join '', '' (map replace_underscores remaining)))),
             s \<lparr> last_incomplete_command := (last_incomplete_command s)
                    (uid \<mapsto> C \<lparr> params := merged, needs := remaining \<rparr>) \<rparr>)"
    using handle_incomplete_command_reprompt [OF pending, of P env]
    by (simp add: r merged_def reprompt_for_missing_params_def)
  show ?thesis using a b c by blast
qed

theorem merge_turn_witness:
  "handle_incomplete_command example_env ''cli'' example_file_path_intent example_router =
     (Return (PStr ''Please provide: content''),
      example_router \<lparr> last_incomplete_command :=
        [''cli'' \<mapsto> example_pending
           \<lparr> params := params example_pending ++ params example_file_path_intent,
             needs := [''content''] \<rparr>] \<rparr>)
   \<and> last_incomplete_command
        (snd (handle_incomplete_command example_env ''cli'' example_both_intent example_router)) ''cli''
       = None"
proof -
  have pending: "last_incomplete_command example_router ''cli'' = Some example_pending"
    by (simp add: example_router_def)
  have r1: "filter (\<lambda>k. k \<notin> dom (params example_pending) \<and> k \<notin> dom (params example_file_path_intent))
              (needs example_pending) = [''content'']"
    by (simp add: example_pending_def example_file_path_intent_def)
  have r2: "filter (\<lambda>k. k \<notin> dom (params example_pending) \<and> k \<notin> dom (params example_both_intent))
              (needs example_pending) = []"
    by (simp add: example_pending_def example_both_intent_def)
  have m: "(last_incomplete_command example_router)(''cli'' \<mapsto> c) = [''cli'' \<mapsto> c]" for c
    by (simp add: example_router_def)
  have t: "prompt_missing_params example_env (replace_underscores ''content'')
             = ''Please provide: content''"
    by (simp add: example_env_def replace_underscores_def)
  have w1: "handle_incomplete_command example_env ''cli'' example_file_path_intent example_router =
     (Return (PStr ''Please provide: content''),
      example_router \<lparr> last_incomplete_command :=
        [''cli'' \<mapsto> example_pending
           \<lparr> params := params example_pending ++ params example_file_path_intent,
             needs := [''content''] \<rparr>] \<rparr>)"
    using merge_turn [OF pending, of example_file_path_intent example_env]
    by (simp add: r1 m t)
  have w2: "last_incomplete_command
        (snd (handle_incomplete_command example_env ''cli'' example_both_intent example_router)) ''cli''
       = None"
    using merge_turn [OF pending, of example_both_intent example_env, unfolded r2]
    by blast
  show ?thesis
    using w1 w2 by (rule conjI)
qed

section \<open>Consecutive turns on one pending command\<close>

lemma handle_incomplete_command_kept:
  assumes "last_incomplete_command s uid = Some C"
    and "last_incomplete_command (snd (handle_incomplete_command env uid P s)) uid = Some C'"
  shows "C' = C \<lparr> params := params C ++ params P,
                   needs := filter (\<lambda>k. (params C ++ params P) k = None) (needs C) \<rparr>"
proof (cases "filter (\<lambda>k. (params C ++ params P) k = None) (needs C) = []")
  case True
  then show ?thesis
    using handle_incomplete_command_deleted [OF assms(1) True, of env] assms(2) by simp
next
  case False
  then show ?thesis
    using handle_incomplete_command_reprompt [OF assms(1) False, of env] assms(2) by simp
qed

lemma handle_incomplete_command_gone:
  assumes "last_incomplete_command s uid = Some C"
    and "last_incomplete_command (snd (handle_incomplete_command env uid P s)) uid = None"
  shows "handle_incomplete_command env uid P s =
           route env (C \<lparr> params := params C ++ params P \<rparr>) uid
             (s \<lparr> last_incomplete_command := (last_incomplete_command s)(uid := None) \<rparr>)"
proof (cases "filter (\<lambda>k. (params C ++ params P) k = None) (needs C) = []")
  case True
  then show ?thesis
    using assms(1) by (rule handle_incomplete_command_dispatch [rotated])
next
  case False
  then show ?thesis
    using handle_incomplete_command_reprompt [OF assms(1) False, of env] assms(2) by simp
qed

lemma process_pending:
  assumes "last_incomplete_command s uid = Some C"
  shows "process env uid user_input s = (Return (PStr (reprompt_for_missing_params env C)), s)
       \<or> (\<exists>P. process env uid user_input s = handle_incomplete_command env uid P s)"
  using assms by (auto simp: process_def Let_def split: sum.splits)

lemma process_kept:
  assumes "last_incomplete_command s uid = Some C"
    and "last_incomplete_command (snd (process env uid user_input s)) uid = Some C'"
  shows "C' = C \<or> (\<exists>ps. C' = C \<lparr> params := ps, needs := filter (\<lambda>k. ps k = None) (needs C) \<rparr>)"
  using process_pending [OF assms(1), of env user_input] assms
    handle_incomplete_command_kept [OF assms(1), of env _ C']
  by (metis option.inject snd_conv)

lemma process_kept_fields:
  assumes "last_incomplete_command s uid = Some C"
    and "last_incomplete_command (snd (process env uid user_input s)) uid = Some C'"
  shows "agent C' = agent C \<and> action C' = action C \<and> raw_input C' = raw_input C
       \<and> length (needs C') \<le> length (needs C) \<and> set (needs C') \<subseteq> set (needs C)"
  using process_kept [OF assms] by auto

lemma pending_trace_fields:
  assumes "last_incomplete_command s uid = Some C"
  shows "\<forall>C' \<in> set (pending_trace env uid inputs s).
           agent C' = agent C \<and> action C' = action C \<and> raw_input C' = raw_input C
           \<and> length (needs C') \<le> length (needs C) \<and> set (needs C') \<subseteq> set (needs C)"
  using assms
proof (induction inputs arbitrary: s C)
  case Nil
  then show ?case by simp
next
  case (Cons user_input rest)
  let ?s' = "snd (process env uid user_input s)"
  show ?case
  proof (cases "last_incomplete_command ?s' uid")
    case None
    then show ?thesis using Cons.prems by simp
  next
    case (Some C1)
    have step: "agent C1 = agent C \<and> action C1 = action C \<and> raw_input C1 = raw_input C
       \<and> length (needs C1) \<le> length (needs C) \<and> set (needs C1) \<subseteq> set (needs C)"
      using Cons.prems Some by (rule process_kept_fields)
    have rest: "\<forall>C' \<in> set (pending_trace env uid rest ?s').
           agent C' = agent C1 \<and> action C' = action C1 \<and> raw_input C' = raw_input C1
           \<and> length (needs C') \<le> length (needs C1) \<and> set (needs C') \<subseteq> set (needs C1)"
      using Some by (rule Cons.IH)
    have tr: "pending_trace env uid (user_input # rest) s = C1 # pending_trace env uid rest ?s'"
      using Cons.prems Some by simp
    show ?thesis
      unfolding tr using step rest by fastforce
  qed
qed

lemma pending_trace_sorted:
  assumes "last_incomplete_command s uid = Some C"
  shows "sorted_wrt (\<lambda>a b. length (needs b) \<le> length (needs a)) (C # pending_trace env uid inputs s)"
  using assms
proof (induction inputs arbitrary: s C)
  case Nil
  then show ?case by simp
next
  case (Cons user_input rest)
  let ?s' = "snd (process env uid user_input s)"
  show ?case
  proof (cases "last_incomplete_command ?s' uid")
    case None
    then show ?thesis using Cons.prems by simp
  next
    case (Some C1)
    have tr: "pending_trace env uid (user_input # rest) s = C1 # pending_trace env uid rest ?s'"
      using Cons.prems Some by simp
    have all: "\<forall>C' \<in> set (pending_trace env uid (user_input # rest) s).
                 length (needs C') \<le> length (needs C)"
      using pending_trace_fields [OF Cons.prems, of env "user_input # rest"] by blast
    have "sorted_wrt (\<lambda>a b. length (needs b) \<le> length (needs a)) (C1 # pending_trace env uid rest ?s')"
      using Some by (rule Cons.IH)
    then show ?thesis
      using all unfolding tr by simp
  qed
qed

section \<open>The example, turn by turn\<close>

lemma example_router_pending:
  "last_incomplete_command example_router ''cli'' = Some example_pending"
  by (simp add: example_router_def)

lemma example_process_file_path:
  "process example_env ''cli'' ''main.py'' example_router =
     handle_incomplete_command example_env ''cli'' example_file_path_intent example_router"
  by (simp add: process_def example_env_def example_extract_def example_router_def
        example_file_path_intent_def fill_content_from_memory_def)

lemma example_file_path_remaining:
  "filter (\<lambda>k. (params example_pending ++ params example_file_path_intent) k = None)
     (needs example_pending) = [''content'']"
  by (simp add: example_pending_def example_file_path_intent_def)

lemma example_file_path_turn:
  "last_incomplete_command (snd (process example_env ''cli'' ''main.py'' example_router)) ''cli'' =
     Some (example_pending \<lparr> params := params example_pending ++ params example_file_path_intent,
                             needs := [''content''] \<rparr>)"
proof -
  have ne: "filter (\<lambda>k. (params example_pending ++ params example_file_path_intent) k = None)
     (needs example_pending) \<noteq> []"
    unfolding example_file_path_remaining by simp
  show ?thesis
    unfolding example_process_file_path
      handle_incomplete_command_reprompt [OF example_router_pending ne]
      example_file_path_remaining
    by simp
qed

lemma example_trace:
  "pending_trace example_env ''cli'' [''main.py''] example_router =
     [example_pending \<lparr> params := params example_pending ++ params example_file_path_intent,
                        needs := [''content''] \<rparr>]"
  by (simp add: example_router_pending example_file_path_turn)

text \<open>
  Claim C2. Over any sequence of turns on one pending command, the needs list never
  grows from one turn to the next and stays within the needs the command had at the
  start; the same holds for a single merge of an arbitrary parsed intent from an
  arbitrary state.
\<close>

theorem needs_shrink:
  assumes "last_incomplete_command s uid = Some C"
  shows "sorted_wrt (\<lambda>a b. length (needs b) \<le> length (needs a)) (C # pending_trace env uid inputs s)
       \<and> (\<forall>C' \<in> set (pending_trace env uid inputs s). set (needs C') \<subseteq> set (needs C))
       \<and> (\<forall>P C'. last_incomplete_command (snd (handle_incomplete_command env uid P s)) uid = Some C'
             \<longrightarrow> length (needs C') \<le> length (needs C) \<and> set (needs C') \<subseteq> set (needs C))"
proof -
  have a: "sorted_wrt (\<lambda>a b. length (needs b) \<le> length (needs a)) (C # pending_trace env uid inputs s)"
    using assms by (rule pending_trace_sorted)
  have b: "\<forall>C' \<in> set (pending_trace env uid inputs s). set (needs C') \<subseteq> set (needs C)"
    using pending_trace_fields [OF assms, of env inputs] by blast
  have c: "length (needs C') \<le> length (needs C) \<and> set (needs C') \<subseteq> set (needs C)"
    if "last_incomplete_command (snd (handle_incomplete_command env uid P s)) uid = Some C'" for P C'
    using handle_incomplete_command_kept [OF assms that] by auto
  show ?thesis using a b c by blast
qed

theorem needs_shrink_witness:
  "sorted_wrt (\<lambda>a b. length (needs b) \<le> length (needs a))
     (example_pending # pending_trace example_env ''cli'' [''main.py''] example_router)
   \<and> needs example_pending = [''file_path'', ''content'']
   \<and> map needs (pending_trace example_env ''cli'' [''main.py''] example_router) = [[''content'']]"
proof -
  have a: "sorted_wrt (\<lambda>a b. length (needs b) \<le> length (needs a))
     (example_pending # pending_trace example_env ''cli'' [''main.py''] example_router)"
    using needs_shrink [OF example_router_pending, of example_env "[''main.py'']"] by blast
  have b: "needs example_pending = [''file_path'', ''content'']"
    by (simp add: example_pending_def)
  have c: "map needs (pending_trace example_env ''cli'' [''main.py''] example_router) = [[''content'']]"
    unfolding example_trace by simp
  show ?thesis using a b c by blast
qed

text \<open>
  Claim C3. While a command is pending, a turn leaves its agent, its action and its raw
  input as they were: the stored command differs from the previous one in \<open>params\<close> and
  \<open>needs\<close> only, the pending commands of other users are untouched, and the command that
  is finally dispatched is the stored one with the merged parameters.
\<close>

theorem pending_frame:
  assumes "last_incomplete_command s uid = Some C"
  shows "(\<forall>C' \<in> set (pending_trace env uid inputs s).
            agent C' = agent C \<and> action C' = action C \<and> raw_input C' = raw_input C)
       \<and> (\<forall>P C'. last_incomplete_command (snd (handle_incomplete_command env uid P s)) uid = Some C'
             \<longrightarrow> C' = C \<lparr> params := params C', needs := needs C' \<rparr>)
       \<and> (\<forall>P. last_incomplete_command (snd (handle_incomplete_command env uid P s)) uid = None
             \<longrightarrow> handle_incomplete_command env uid P s =
                   route env (C \<lparr> params := params C ++ params P \<rparr>) uid
                     (s \<lparr> last_incomplete_command := (last_incomplete_command s)(uid := None) \<rparr>))
       \<and> (\<forall>P u. u \<noteq> uid \<longrightarrow>
             last_incomplete_command (snd (handle_incomplete_command env uid P s)) u
               = last_incomplete_command s u)"
proof -
  have a: "\<forall>C' \<in> set (pending_trace env uid inputs s).
            agent C' = agent C \<and> action C' = action C \<and> raw_input C' = raw_input C"
    using pending_trace_fields [OF assms, of env inputs] by blast
  have b: "C' = C \<lparr> params := params C', needs := needs C' \<rparr>"
    if "last_incomplete_command (snd (handle_incomplete_command env uid P s)) uid = Some C'" for P C'
    using handle_incomplete_command_kept [OF assms that] by simp
  have c: "handle_incomplete_command env uid P s =
                   route env (C \<lparr> params := params C ++ params P \<rparr>) uid
                     (s \<lparr> last_incomplete_command := (last_incomplete_command s)(uid := None) \<rparr>)"
    if "last_incomplete_command (snd (handle_incomplete_command env uid P s)) uid = None" for P
    using assms that by (rule handle_incomplete_command_gone)
  have d: "last_incomplete_command (snd (handle_incomplete_command env uid P s)) u
               = last_incomplete_command s u" if "u \<noteq> uid" for P u
    using that by (rule handle_incomplete_command_other_users)
  show ?thesis using a b c d by blast
qed

theorem pending_frame_witness:
  "map (\<lambda>c. (agent c, action c)) (pending_trace example_env ''cli'' [''main.py''] example_router)
     = [(agent example_pending, action example_pending)]
   \<and> agent example_pending = ''git'' \<and> action example_pending = ''push_file''
   \<and> agent example_file_path_intent = ''git''"
proof -
  have a: "\<forall>C' \<in> set (pending_trace example_env ''cli'' [''main.py''] example_router).
            agent C' = agent example_pending \<and> action C' = action example_pending"
    using pending_frame [OF example_router_pending, of example_env "[''main.py'']"] by blast
  have b: "map (\<lambda>c. (agent c, action c)) (pending_trace example_env ''cli'' [''main.py''] example_router)
     = [(agent example_pending, action example_pending)]"
    using a unfolding example_trace by simp
  have c: "agent example_pending = ''git'' \<and> action example_pending = ''push_file''
   \<and> agent example_file_path_intent = ''git''"
    by (simp add: example_pending_def example_file_path_intent_def)
  show ?thesis using b c by blast
qed

section \<open>Filling \<open>content\<close> from long-term memory\<close>

lemma fill_content_from_memory_filled:
  assumes "''content'' \<in> set (needs P)" and "ltm ''code'' = Some v"
  shows "fill_content_from_memory ltm P =
           P \<lparr> params := (params P)(''content'' \<mapsto> v), needs := remove1 ''content'' (needs P) \<rparr>"
  using assms by (simp add: fill_content_from_memory_def)

lemma fill_content_from_memory_not_needed:
  assumes "''content'' \<notin> set (needs P)"
  shows "fill_content_from_memory ltm P = P"
  using assms by (simp add: fill_content_from_memory_def)

lemma fill_content_from_memory_no_code:
  assumes "ltm ''code'' = None"
  shows "fill_content_from_memory ltm P = P"
  using assms by (simp add: fill_content_from_memory_def)

lemma process_extracted:
  assumes "extract_intent_and_args env user_input (last_incomplete_command s uid)
             (get_short_term_history uid (memory_manager s)) = Inr P0"
    and "fill_content_from_memory (get_all_long_term uid (memory_manager s))
           (P0 \<lparr> raw_input := user_input \<rparr>) = P"
  shows "(last_incomplete_command s uid \<noteq> None \<longrightarrow>
            process env uid user_input s = handle_incomplete_command env uid P s)
       \<and> (last_incomplete_command s uid = None \<and> needs P = [] \<longrightarrow>
            process env uid user_input s = route env P uid s)
       \<and> (last_incomplete_command s uid = None \<and> needs P \<noteq> [] \<longrightarrow>
            process env uid user_input s =
              (Return (PStr (reprompt_for_missing_params env P)),
               s \<lparr> last_incomplete_command := (last_incomplete_command s)(uid \<mapsto> P) \<rparr>))"
proof (cases "last_incomplete_command s uid")
  case None
  then show ?thesis using assms by (simp add: process_def Let_def)
next
  case (Some C)
  then show ?thesis using assms by (simp add: process_def Let_def)
qed

lemma length_remove1_member:
  assumes "x \<in> set xs"
  shows "length (remove1 x xs) + 1 = length xs"
  using assms by (simp add: length_remove1) (cases xs; simp)

lemma example_router_content_pending:
  "last_incomplete_command example_router_content_code ''cli'' =
     Some (example_pending \<lparr> params := [''repo_name'' \<mapsto> PStr ''demo'', ''file_path'' \<mapsto> PStr ''main.py''],
                             needs := [''content''] \<rparr>)"
  by (simp add: example_router_content_code_def example_router_content_def)

lemma example_router_content_code_memory:
  "get_all_long_term ''cli'' (memory_manager example_router_content_code) ''code'' = Some (PStr ''print(1)'')"
  by (simp add: example_router_content_code_def get_all_long_term_def MemoryManager_init_def)

lemma example_router_content_code_history:
  "get_short_term_history ''cli'' (memory_manager example_router_content_code) = []"
  by (simp add: example_router_content_code_def get_short_term_history_def MemoryManager_init_def)

text \<open>
  The fill, for every intent. When the intent extracted on a turn lists \<open>content\<close> among
  its needs and the long-term memory of the user has a \<open>code\<close> entry, \<open>process\<close> sets
  the \<open>content\<close> parameter of the intent to that entry and deletes the first occurrence
  of \<open>content\<close> from the needs of the intent, and only then goes on with the intent so
  changed: it is this intent that is merged into a pending command, dispatched, or
  stored as pending. When the needs name \<open>content\<close> once, it is no longer among them.
\<close>

theorem content_autofill:
  assumes ex: "extract_intent_and_args env user_input (last_incomplete_command s uid)
                 (get_short_term_history uid (memory_manager s)) = Inr P0"
    and need: "''content'' \<in> set (needs P0)"
    and code: "get_all_long_term uid (memory_manager s) ''code'' = Some v"
  defines "P \<equiv> P0 \<lparr> raw_input := user_input,
                     params := (params P0)(''content'' \<mapsto> v),
                     needs := remove1 ''content'' (needs P0) \<rparr>"
  shows "fill_content_from_memory (get_all_long_term uid (memory_manager s))
           (P0 \<lparr> raw_input := user_input \<rparr>) = P
       \<and> params P ''content'' = Some v
       \<and> length (needs P) + 1 = length (needs P0)
       \<and> (distinct (needs P0) \<longrightarrow> ''content'' \<notin> set (needs P))
       \<and> (last_incomplete_command s uid \<noteq> None \<longrightarrow>
            process env uid user_input s = handle_incomplete_command env uid P s)
       \<and> (last_incomplete_command s uid = None \<and> needs P = [] \<longrightarrow>
            process env uid user_input s = route env P uid s)
       \<and> (last_incomplete_command s uid = None \<and> needs P \<noteq> [] \<longrightarrow>
            process env uid user_input s =
              (Return (PStr (reprompt_for_missing_params env P)),
               s \<lparr> last_incomplete_command := (last_incomplete_command s)(uid \<mapsto> P) \<rparr>))"
proof -
  have f: "fill_content_from_memory (get_all_long_term uid (memory_manager s))
           (P0 \<lparr> raw_input := user_input \<rparr>) = P"
    using need code by (simp add: fill_content_from_memory_filled P_def)
  have a: "params P ''content'' = Some v"
    by (simp add: P_def)
  have b: "length (needs P) + 1 = length (needs P0)"
    using length_remove1_member [OF need] by (simp add: P_def)
  have c: "distinct (needs P0) \<longrightarrow> ''content'' \<notin> set (needs P)"
    by (simp add: P_def)
  show ?thesis
    using f a b c process_extracted [OF ex f] by blast
qed

theorem content_autofill_witness:
  "process example_env ''cli'' ''push it to demo'' example_router_content_code =
     handle_incomplete_command example_env ''cli''
       (example_pending \<lparr> params := (params example_pending)(''content'' \<mapsto> PStr ''print(1)''),
                          needs := [''file_path''] \<rparr>)
       example_router_content_code
   \<and> ''content'' \<in> set (needs example_pending)
   \<and> last_incomplete_command example_router_content_code ''cli'' \<noteq> None"
proof -
  have ex: "extract_intent_and_args example_env ''push it to demo''
              (last_incomplete_command example_router_content_code ''cli'')
              (get_short_term_history ''cli'' (memory_manager example_router_content_code))
            = Inr example_pending"
    by (simp add: example_env_def example_extract_def)
  have need: "''content'' \<in> set (needs example_pending)"
    by (simp add: example_pending_def)
  have pend: "last_incomplete_command example_router_content_code ''cli'' \<noteq> None"
    by (simp add: example_router_content_pending)
  have P: "example_pending \<lparr> raw_input := ''push it to demo'',
                     params := (params example_pending)(''content'' \<mapsto> PStr ''print(1)''),
                     needs := remove1 ''content'' (needs example_pending) \<rparr>
           = example_pending \<lparr> params := (params example_pending)(''content'' \<mapsto> PStr ''print(1)''),
                          needs := [''file_path''] \<rparr>"
    by (simp add: example_pending_def)
  have w: "process example_env ''cli'' ''push it to demo'' example_router_content_code =
     handle_incomplete_command example_env ''cli''
       (example_pending \<lparr> params := (params example_pending)(''content'' \<mapsto> PStr ''print(1)''),
                          needs := [''file_path''] \<rparr>)
       example_router_content_code"
    using content_autofill [OF ex need example_router_content_code_memory] pend
    unfolding P by blast
  show ?thesis
    using w need pend by blast
qed

text \<open>
  Claim C4. \<open>content\<close> is to leave the needs once it has been filled from the \<open>code\<close>
  entry of long-term memory, as the claim says and as the comment on line 83 of
  \<open>process\<close> says. \<open>list.remove\<close> deletes one occurrence only, and the code misses the
  case of a needs list that names \<open>content\<close> more than once: for the needs \<open>content\<close>,
  \<open>file_path\<close>, \<open>content\<close>, with \<open>code\<close> in the long-term memory of the user, \<open>process\<close>
  fills the parameter and yet stores the command with \<open>content\<close> still among its needs
  and asks the user for it.
\<close>

theorem content_filled_and_still_needed:
  "get_all_long_term ''cli'' (memory_manager example_router_code) ''code'' = Some (PStr ''print(1)'')
   \<and> needs example_duplicate_intent = [''content'', ''file_path'', ''content'']
   \<and> last_incomplete_command example_router_code ''cli'' = None
   \<and> process example_env_duplicate ''cli'' ''push my code to demo'' example_router_code =
       (Return (PStr ''Please provide: file path, content''),
        example_router_code \<lparr> last_incomplete_command :=
          [''cli'' \<mapsto> example_duplicate_intent
             \<lparr> params := (params example_duplicate_intent)(''content'' \<mapsto> PStr ''print(1)''),
               needs := [''file_path'', ''content''] \<rparr>] \<rparr>)"
proof -
  have code: "get_all_long_term ''cli'' (memory_manager example_router_code) ''code'' = Some (PStr ''print(1)'')"
    by (simp add: example_router_code_def get_all_long_term_def MemoryManager_init_def)
  have n: "needs example_duplicate_intent = [''content'', ''file_path'', ''content'']"
    by (simp add: example_duplicate_intent_def)
  have none: "last_incomplete_command example_router_code ''cli'' = None"
    by (simp add: example_router_code_def MasterRouter_init_def)
  have ex: "extract_intent_and_args example_env_duplicate ''push my code to demo''
              (last_incomplete_command example_router_code ''cli'')
              (get_short_term_history ''cli'' (memory_manager example_router_code))
            = Inr example_duplicate_intent"
    by (simp add: example_env_duplicate_def)
  have raw: "example_duplicate_intent \<lparr> raw_input := ''push my code to demo'' \<rparr> = example_duplicate_intent"
    by (simp add: example_duplicate_intent_def)
  have f: "fill_content_from_memory (get_all_long_term ''cli'' (memory_manager example_router_code))
             (example_duplicate_intent \<lparr> raw_input := ''push my code to demo'' \<rparr>)
           = example_duplicate_intent
               \<lparr> params := (params example_duplicate_intent)(''content'' \<mapsto> PStr ''print(1)''),
                 needs := [''file_path'', ''content''] \<rparr>"
    unfolding raw
    using fill_content_from_memory_filled
            [of example_duplicate_intent
                "get_all_long_term ''cli'' (memory_manager example_router_code)" "PStr ''print(1)''"]
          code
    by (simp add: n)
  have t: "reprompt_for_missing_params example_env_duplicate
             (example_duplicate_intent
               \<lparr> params := (params example_duplicate_intent)(''content'' \<mapsto> PStr ''print(1)''),
                 needs := [''file_path'', ''content''] \<rparr>)
           = ''Please provide: file path, content''"
    by (simp add: reprompt_for_missing_params_def example_env_duplicate_def example_env_def
          replace_underscores_def)
  have m: "(last_incomplete_command example_router_code)(''cli'' \<mapsto> c) = [''cli'' \<mapsto> c]" for c
    by (simp add: example_router_code_def MasterRouter_init_def)
  have p: "process example_env_duplicate ''cli'' ''push my code to demo'' example_router_code =
       (Return (PStr ''Please provide: file path, content''),
        example_router_code \<lparr> last_incomplete_command :=
          [''cli'' \<mapsto> example_duplicate_intent
             \<lparr> params := (params example_duplicate_intent)(''content'' \<mapsto> PStr ''print(1)''),
               needs := [''file_path'', ''content''] \<rparr>] \<rparr>)"
    using process_extracted [OF ex f] none by (simp add: t m)
  show ?thesis using code n none p by blast
qed

section \<open>A pending command that needs \<open>content\<close>\<close>

lemma process_not_needed:
  assumes "extract_intent_and_args env user_input (last_incomplete_command s uid)
             (get_short_term_history uid (memory_manager s)) = Inr P0"
    and "last_incomplete_command s uid = Some C"
    and "''content'' \<notin> set (needs P0)"
  shows "process env uid user_input s =
           handle_incomplete_command env uid (P0 \<lparr> raw_input := user_input \<rparr>) s"
  using assms by (simp add: process_def Let_def fill_content_from_memory_def)

lemma handle_incomplete_command_content_kept:
  assumes "last_incomplete_command s uid = Some C"
    and "''content'' \<in> set (needs C)"
    and "params C ''content'' = None" and "params P ''content'' = None"
  shows "\<exists>C'. last_incomplete_command (snd (handle_incomplete_command env uid P s)) uid = Some C'
             \<and> ''content'' \<in> set (needs C') \<and> params C' ''content'' = None"
proof -
  have m: "(params C ++ params P) ''content'' = None"
    using assms(3,4) by simp
  have "''content'' \<in> set (filter (\<lambda>k. (params C ++ params P) k = None) (needs C))"
    using assms(2) m by simp
  then have ne: "filter (\<lambda>k. (params C ++ params P) k = None) (needs C) \<noteq> []"
    by (metis empty_iff empty_set)
  show ?thesis
    unfolding handle_incomplete_command_reprompt [OF assms(1) ne]
    using assms(2) m by simp
qed

lemma handle_incomplete_command_content_supplied:
  assumes "last_incomplete_command s uid = Some C"
    and "params C ''content'' \<noteq> None \<or> params P ''content'' \<noteq> None"
    and "last_incomplete_command (snd (handle_incomplete_command env uid P s)) uid = Some C'"
  shows "''content'' \<notin> set (needs C')"
proof -
  have m: "(params C ++ params P) ''content'' \<noteq> None"
    using assms(2) by auto
  show ?thesis
    unfolding handle_incomplete_command_kept [OF assms(1,3)]
    using m by simp
qed

text \<open>
  Claim C10, as amended. With a command pending that lists \<open>content\<close> among its needs,
  and an extracted intent that does not list \<open>content\<close> among its own needs, \<open>process\<close>
  merges the intent as it was extracted: nothing is taken from long-term memory,
  whatever it holds. After the turn \<open>content\<close> is still among the needs of the pending
  command when neither its parameters nor those of the intent hold \<open>content\<close>; when
  either holds it, \<open>content\<close> is no longer needed.
\<close>

theorem pending_content_not_autofilled:
  assumes ex: "extract_intent_and_args env user_input (last_incomplete_command s uid)
                 (get_short_term_history uid (memory_manager s)) = Inr P0"
    and pending: "last_incomplete_command s uid = Some C"
    and needed: "''content'' \<in> set (needs C)"
    and fresh: "''content'' \<notin> set (needs P0)"
  shows "process env uid user_input s =
           handle_incomplete_command env uid (P0 \<lparr> raw_input := user_input \<rparr>) s
       \<and> (params C ''content'' = None \<and> params P0 ''content'' = None \<longrightarrow>
            (\<exists>C'. last_incomplete_command (snd (process env uid user_input s)) uid = Some C'
                  \<and> ''content'' \<in> set (needs C') \<and> params C' ''content'' = None))
       \<and> (params C ''content'' \<noteq> None \<or> params P0 ''content'' \<noteq> None \<longrightarrow>
            (\<forall>C'. last_incomplete_command (snd (process env uid user_input s)) uid = Some C'
                  \<longrightarrow> ''content'' \<notin> set (needs C')))"
proof -
  have a: "process env uid user_input s =
           handle_incomplete_command env uid (P0 \<lparr> raw_input := user_input \<rparr>) s"
    using ex pending fresh by (rule process_not_needed)
  have b: "\<exists>C'. last_incomplete_command (snd (process env uid user_input s)) uid = Some C'
                  \<and> ''content'' \<in> set (needs C') \<and> params C' ''content'' = None"
    if "params C ''content'' = None \<and> params P0 ''content'' = None"
    unfolding a
    using handle_incomplete_command_content_kept [OF pending needed, of "P0 \<lparr> raw_input := user_input \<rparr>" env] that
    by simp
  have c: "''content'' \<notin> set (needs C')"
    if "params C ''content'' \<noteq> None \<or> params P0 ''content'' \<noteq> None"
      and "last_incomplete_command (snd (process env uid user_input s)) uid = Some C'" for C'
    using handle_incomplete_command_content_supplied [OF pending, of "P0 \<lparr> raw_input := user_input \<rparr>" env C'] that
    unfolding a by simp
  show ?thesis using a b c by blast
qed

theorem pending_content_not_autofilled_witness:
  "get_all_long_term ''cli'' (memory_manager example_router_content_code) ''code'' = Some (PStr ''print(1)'')
   \<and> process example_env ''cli'' ''main.py'' example_router_content_code =
       handle_incomplete_command example_env ''cli'' example_file_path_intent example_router_content_code
   \<and> (\<exists>C'. last_incomplete_command
              (snd (process example_env ''cli'' ''main.py'' example_router_content_code)) ''cli'' = Some C'
           \<and> ''content'' \<in> set (needs C') \<and> params C' ''content'' = None)"
proof -
  have ex: "extract_intent_and_args example_env ''main.py''
              (last_incomplete_command example_router_content_code ''cli'')
              (get_short_term_history ''cli'' (memory_manager example_router_content_code))
            = Inr example_file_path_intent"
    by (simp add: example_env_def example_extract_def)
  have needed: "''content'' \<in> set (needs (example_pending
       \<lparr> params := [''repo_name'' \<mapsto> PStr ''demo'', ''file_path'' \<mapsto> PStr ''main.py''],
         needs := [''content''] \<rparr>))"
    by simp
  have fresh: "''content'' \<notin> set (needs example_file_path_intent)"
    by (simp add: example_file_path_intent_def)
  have none: "params (example_pending
       \<lparr> params := [''repo_name'' \<mapsto> PStr ''demo'', ''file_path'' \<mapsto> PStr ''main.py''],
         needs := [''content''] \<rparr>) ''content'' = None
       \<and> params example_file_path_intent ''content'' = None"
    by (simp add: example_file_path_intent_def)
  have raw: "example_file_path_intent \<lparr> raw_input := ''main.py'' \<rparr> = example_file_path_intent"
    by (simp add: example_file_path_intent_def)
  note t = pending_content_not_autofilled [OF ex example_router_content_pending needed fresh,
             unfolded raw]
  have w1: "process example_env ''cli'' ''main.py'' example_router_content_code =
       handle_incomplete_command example_env ''cli'' example_file_path_intent example_router_content_code"
    using t by blast
  have w2: "\<exists>C'. last_incomplete_command
              (snd (process example_env ''cli'' ''main.py'' example_router_content_code)) ''cli'' = Some C'
           \<and> ''content'' \<in> set (needs C') \<and> params C' ''content'' = None"
    using t none by blast
  show ?thesis
    using example_router_content_code_memory w1 w2 by blast
qed

text \<open>
  The claim as stated fails when the intent itself brings \<open>content\<close>: the pending command
  needs \<open>content\<close>, the intent extracted from \<open>print(2)\<close> has no needs, and after the turn
  the command has been dispatched and no needs remain.
\<close>

theorem pending_content_supplied_counterexample:
  "map_option needs (last_incomplete_command example_router_content ''cli'') = Some [''content'']
   \<and> extract_intent_and_args example_env ''print(2)''
        (last_incomplete_command example_router_content ''cli'')
        (get_short_term_history ''cli'' (memory_manager example_router_content))
      = Inr example_content_intent
   \<and> needs example_content_intent = []
   \<and> last_incomplete_command
        (snd (process example_env ''cli'' ''print(2)'' example_router_content)) ''cli'' = None"
proof -
  have pend: "last_incomplete_command example_router_content ''cli'' =
     Some (example_pending \<lparr> params := [''repo_name'' \<mapsto> PStr ''demo'', ''file_path'' \<mapsto> PStr ''main.py''],
                             needs := [''content''] \<rparr>)"
    by (simp add: example_router_content_def)
  have a: "map_option needs (last_incomplete_command example_router_content ''cli'') = Some [''content'']"
    unfolding pend by simp
  have ex: "extract_intent_and_args example_env ''print(2)''
        (last_incomplete_command example_router_content ''cli'')
        (get_short_term_history ''cli'' (memory_manager example_router_content))
      = Inr example_content_intent"
    by (simp add: example_env_def example_extract_def)
  have n: "needs example_content_intent = []"
    by (simp add: example_content_intent_def)
  have raw: "example_content_intent \<lparr> raw_input := ''print(2)'' \<rparr> = example_content_intent"
    by (simp add: example_content_intent_def)
  have p: "process example_env ''cli'' ''print(2)'' example_router_content =
             handle_incomplete_command example_env ''cli'' example_content_intent example_router_content"
    using process_not_needed [OF ex pend] n unfolding raw by simp
  have r: "filter (\<lambda>k. (params (example_pending
             \<lparr> params := [''repo_name'' \<mapsto> PStr ''demo'', ''file_path'' \<mapsto> PStr ''main.py''],
               needs := [''content''] \<rparr>) ++ params example_content_intent) k = None)
           (needs (example_pending
             \<lparr> params := [''repo_name'' \<mapsto> PStr ''demo'', ''file_path'' \<mapsto> PStr ''main.py''],
               needs := [''content''] \<rparr>)) = []"
    by (simp add: example_content_intent_def)
  have d: "last_incomplete_command
        (snd (process example_env ''cli'' ''print(2)'' example_router_content)) ''cli'' = None"
    unfolding p using pend r by (rule handle_incomplete_command_deleted)
  show ?thesis using a ex n d by blast
qed

section \<open>Dispatch through the registry\<close>

lemma route_registry:
  assumes "agent P \<noteq> chat_agent_name env"
  shows "route env P uid s =
           (case mcp_servers env (agent P) of
              None \<Rightarrow> (Return (PStr (prompt_unsupported_agent env (agent P))), s)
            | Some handler \<Rightarrow>
                (case handler (action P) of
                   None \<Rightarrow> (Return (PStr (prompt_unsupported_action env (agent P) (action P))), s)
                 | Some method_to_call \<Rightarrow> route_call env P uid method_to_call s))"
  using assms by (simp add: route_def Let_def)

lemma route_resolved:
  assumes "agent P \<noteq> chat_agent_name env"
    and "mcp_servers env (agent P) = Some h" and "h (action P) = Some m"
  shows "route env P uid s = route_call env P uid m s"
  using assms by (simp add: route_registry)

lemma route_call_raises:
  assumes "call m (Kwargs (params P |` set (sig_parameters m))) = Inl e"
  shows "route_call env P uid m s =
           (Return (PStr (prompt_execution_error env (agent P) (action P) (error_text e))),
            s \<lparr> invoked := invoked s @ [(agent P, action P, Kwargs (params P |` set (sig_parameters m)))] \<rparr>)"
  using assms by (simp add: route_call_def Let_def)

lemma route_call_invoked:
  "invoked (snd (route_call env P uid m s)) =
     invoked s @ [(agent P, action P, Kwargs (params P |` set (sig_parameters m)))]"
  by (simp add: route_call_def Let_def split: sum.splits)

lemma example_git_registered:
  "mcp_servers example_env ''git'' = Some example_git_agent"
  by (simp add: example_env_def)

lemma example_delete_route:
  "route example_env example_delete_intent ''cli'' MasterRouter_init =
     (Return (PStr ''git delete_repo failed: 404 Not Found''),
      MasterRouter_init \<lparr> invoked :=
        [(''git'', ''delete_repo'', Kwargs (params example_delete_intent |` {''repo_name''}))] \<rparr>)"
proof -
  have a: "agent example_delete_intent \<noteq> chat_agent_name example_env"
    by (simp add: example_delete_intent_def example_env_def)
  have h: "mcp_servers example_env (agent example_delete_intent) = Some example_git_agent"
    by (simp add: example_delete_intent_def example_env_def)
  have m: "example_git_agent (action example_delete_intent) =
             Some \<lparr> sig_parameters = [''repo_name''],
                    call = (\<lambda>a. Inl (Exception ''404 Not Found'')) \<rparr>"
    by (simp add: example_delete_intent_def example_git_agent_def)
  have t: "prompt_execution_error example_env (agent example_delete_intent)
             (action example_delete_intent) ''404 Not Found''
           = ''git delete_repo failed: 404 Not Found''"
    by (simp add: example_delete_intent_def example_env_def)
  show ?thesis
    unfolding route_resolved [OF a h m]
    by (simp add: route_call_raises t MasterRouter_init_def)
       (simp add: example_delete_intent_def)
qed

text \<open>
  Claim C5, as amended. When the operation that the registry resolves (for an agent
  other than the chat agent) raises, \<open>_route\<close> returns the execution-error message made
  of the agent, the action and the text of the exception; the operation has been called
  once, and the memory of every user, the short-term transcript included, is as it was
  before: the turn is not recorded.
\<close>

theorem handler_exception:
  assumes "agent P \<noteq> chat_agent_name env"
    and "mcp_servers env (agent P) = Some h"
    and "h (action P) = Some m"
    and "call m (Kwargs (params P |` set (sig_parameters m))) = Inl e"
  shows "route env P uid s =
           (Return (PStr (prompt_execution_error env (agent P) (action P) (error_text e))),
            s \<lparr> invoked := invoked s @ [(agent P, action P, Kwargs (params P |` set (sig_parameters m)))] \<rparr>)
       \<and> memory_manager (snd (route env P uid s)) = memory_manager s
       \<and> get_short_term_history uid (memory_manager (snd (route env P uid s)))
           = get_short_term_history uid (memory_manager s)
       \<and> last_incomplete_command (snd (route env P uid s)) = last_incomplete_command s"
  unfolding route_resolved [OF assms(1,2,3)] route_call_raises [OF assms(4)]
  by simp

theorem handler_exception_witness:
  "route example_env example_delete_intent ''cli'' MasterRouter_init =
     (Return (PStr ''git delete_repo failed: 404 Not Found''),
      MasterRouter_init \<lparr> invoked :=
        [(''git'', ''delete_repo'', Kwargs (params example_delete_intent |` {''repo_name''}))] \<rparr>)
   \<and> memory_manager (snd (route example_env example_delete_intent ''cli'' MasterRouter_init))
       = MemoryManager_init None"
proof -
  have a: "agent example_delete_intent \<noteq> chat_agent_name example_env"
    by (simp add: example_delete_intent_def example_env_def)
  have h: "mcp_servers example_env (agent example_delete_intent) = Some example_git_agent"
    by (simp add: example_delete_intent_def example_env_def)
  have m: "example_git_agent (action example_delete_intent) =
             Some \<lparr> sig_parameters = [''repo_name''],
                    call = (\<lambda>a. Inl (Exception ''404 Not Found'')) \<rparr>"
    by (simp add: example_delete_intent_def example_git_agent_def)
  have c: "call \<lparr> sig_parameters = [''repo_name''],
                  call = (\<lambda>a. Inl (Exception ''404 Not Found'')) \<rparr>
             (Kwargs (params example_delete_intent |` set (sig_parameters
                \<lparr> sig_parameters = [''repo_name''],
                  call = (\<lambda>a. Inl (Exception ''404 Not Found'')) \<rparr>)))
           = Inl (Exception ''404 Not Found'')"
    by simp
  have t: "prompt_execution_error example_env (agent example_delete_intent)
             (action example_delete_intent) ''404 Not Found''
           = ''git delete_repo failed: 404 Not Found''"
    by (simp add: example_delete_intent_def example_env_def)
  note w = handler_exception [OF a h m c, of "''cli''" MasterRouter_init]
  have w1: "route example_env example_delete_intent ''cli'' MasterRouter_init =
     (Return (PStr ''git delete_repo failed: 404 Not Found''),
      MasterRouter_init \<lparr> invoked :=
        [(''git'', ''delete_repo'', Kwargs (params example_delete_intent |` {''repo_name''}))] \<rparr>)"
    using w by (simp add: t MasterRouter_init_def) (simp add: example_delete_intent_def)
  have w2: "memory_manager (snd (route example_env example_delete_intent ''cli'' MasterRouter_init))
       = MemoryManager_init None"
    using w by (simp add: MasterRouter_init_def)
  show ?thesis using w1 w2 by (rule conjI)
qed

text \<open>
  The claim as stated fails: the operation \<open>delete_repo\<close> raises, the error message is
  returned, and the short-term transcript of the user is still empty after the turn.
\<close>

theorem turn_not_recorded_counterexample:
  "fst (route example_env example_delete_intent ''cli'' MasterRouter_init)
     = Return (PStr ''git delete_repo failed: 404 Not Found'')
   \<and> get_short_term_history ''cli'' (memory_manager MasterRouter_init) = []
   \<and> get_short_term_history ''cli''
        (memory_manager (snd (route example_env example_delete_intent ''cli'' MasterRouter_init))) = []"
  unfolding example_delete_route
  by (simp add: MasterRouter_init_def MemoryManager_init_def get_short_term_history_def)

section \<open>Unknown agents and unknown actions\<close>

text \<open>
  Claim C6, as amended. For an agent other than the chat agent: when the agent is not in
  the registry, \<open>_route\<close> returns the unsupported-agent message for the agent; when the
  agent is registered and the action names none of its callable attributes (names are
  compared as they are, so case matters), it returns the unsupported-action message for
  the agent and the action. In both cases the state is returned as it was: no operation
  has been called and neither memory nor the pending commands have changed.
\<close>

theorem unsupported_target:
  assumes "agent P \<noteq> chat_agent_name env"
  shows "(mcp_servers env (agent P) = None \<longrightarrow>
            route env P uid s = (Return (PStr (prompt_unsupported_agent env (agent P))), s))
       \<and> (\<forall>h. mcp_servers env (agent P) = Some h \<and> h (action P) = None \<longrightarrow>
            route env P uid s =
              (Return (PStr (prompt_unsupported_action env (agent P) (action P))), s))"
  using assms by (simp add: route_registry)

theorem unsupported_target_witness:
  "route example_env (example_list_intent \<lparr> agent := ''jira'' \<rparr>) ''cli'' example_router_code =
     (Return (PStr ''Unsupported agent: jira''), example_router_code)
   \<and> route example_env (example_list_intent \<lparr> action := ''List_Repos'' \<rparr>) ''cli'' example_router_code =
     (Return (PStr ''Agent git does not support List_Repos''), example_router_code)"
proof -
  have a1: "agent (example_list_intent \<lparr> agent := ''jira'' \<rparr>) \<noteq> chat_agent_name example_env"
    by (simp add: example_env_def)
  have n1: "mcp_servers example_env (agent (example_list_intent \<lparr> agent := ''jira'' \<rparr>)) = None"
    by (simp add: example_env_def)
  have t1: "prompt_unsupported_agent example_env ''jira'' = ''Unsupported agent: jira''"
    by (simp add: example_env_def)
  have w1: "route example_env (example_list_intent \<lparr> agent := ''jira'' \<rparr>) ''cli'' example_router_code =
     (Return (PStr ''Unsupported agent: jira''), example_router_code)"
    using unsupported_target [OF a1, of "''cli''" example_router_code] n1 t1 by simp
  have a2: "agent (example_list_intent \<lparr> action := ''List_Repos'' \<rparr>) \<noteq> chat_agent_name example_env"
    by (simp add: example_env_def example_list_intent_def)
  have h2: "mcp_servers example_env (agent (example_list_intent \<lparr> action := ''List_Repos'' \<rparr>))
              = Some example_git_agent"
    by (simp add: example_env_def example_list_intent_def)
  have n2: "example_git_agent (action (example_list_intent \<lparr> action := ''List_Repos'' \<rparr>)) = None"
    by (simp add: example_git_agent_def)
  have t2: "prompt_unsupported_action example_env
              (agent (example_list_intent \<lparr> action := ''List_Repos'' \<rparr>)) ''List_Repos''
            = ''Agent git does not support List_Repos''"
    by (simp add: example_env_def example_list_intent_def)
  have w2: "route example_env (example_list_intent \<lparr> action := ''List_Repos'' \<rparr>) ''cli'' example_router_code =
     (Return (PStr ''Agent git does not support List_Repos''), example_router_code)"
    using unsupported_target [OF a2, of "''cli''" example_router_code] h2 n2 t2 by simp
  show ?thesis using w1 w2 by (rule conjI)
qed

text \<open>
  The claim as stated fails for the chat agent, which \<open>_route\<close> serves before it looks
  at the registry. The chat handler has no callable attribute \<open>chat\<close> or
  \<open>remember_this\<close>; yet the first command is answered by a call of its \<open>run\<close>
  operation, and the second one appends to the long-term memos and to the transcript.
\<close>

theorem chat_agent_counterexample:
  "mcp_servers example_env (agent example_chat_intent) = Some example_chat_agent
   \<and> example_chat_agent (action example_chat_intent) = None
   \<and> route example_env example_chat_intent ''cli'' MasterRouter_init =
       (Return (PStr ''Hello!''),
        MasterRouter_init \<lparr> invoked := [(''chat'', ''run'', RunArgs ''hello'' example_chat_intent)] \<rparr>)
   \<and> mcp_servers example_env (agent example_remember_intent) = Some example_chat_agent
   \<and> example_chat_agent (action example_remember_intent) = None
   \<and> fst (route example_env example_remember_intent ''cli'' MasterRouter_init)
       = Return (PStr ''I will remember that.'')
   \<and> get_from_long_term ''cli'' ''user_memos''
        (memory_manager (snd (route example_env example_remember_intent ''cli'' MasterRouter_init)))
       = Some (PList [PStr ''buy milk''])
   \<and> length (get_short_term_history ''cli''
        (memory_manager (snd (route example_env example_remember_intent ''cli'' MasterRouter_init)))) = 2"
proof -
  have a: "mcp_servers example_env (agent example_chat_intent) = Some example_chat_agent
         \<and> example_chat_agent (action example_chat_intent) = None"
    by (simp add: example_env_def example_chat_intent_def example_chat_agent_def)
  have b: "route example_env example_chat_intent ''cli'' MasterRouter_init =
       (Return (PStr ''Hello!''),
        MasterRouter_init \<lparr> invoked := [(''chat'', ''run'', RunArgs ''hello'' example_chat_intent)] \<rparr>)"
    by (simp add: route_def route_chat_def Let_def example_env_def example_chat_agent_def
          MasterRouter_init_def)
       (simp add: example_chat_intent_def)
  have c: "mcp_servers example_env (agent example_remember_intent) = Some example_chat_agent
         \<and> example_chat_agent (action example_remember_intent) = None"
    by (simp add: example_env_def example_remember_intent_def example_chat_agent_def)
  have r: "route example_env example_remember_intent ''cli'' MasterRouter_init =
             remember_this example_env ''cli'' (PStr ''buy milk'') ''remember to buy milk'' MasterRouter_init"
    by (simp add: route_def Let_def example_env_def example_remember_intent_def)
  have f: "remember_fact ''cli'' (PStr ''buy milk'') (MemoryManager_init None) =
             Inr ((MemoryManager_init None)
                    \<lparr> long_term_memory := [''cli'' \<mapsto> [''user_memos'' \<mapsto> PList [PStr ''buy milk'']]] \<rparr>)"
    by (simp add: remember_fact_def MemoryManager_init_def Let_def)
  have d: "fst (route example_env example_remember_intent ''cli'' MasterRouter_init)
       = Return (PStr ''I will remember that.'')"
    unfolding r by (simp add: remember_this_def MasterRouter_init_def f Let_def) (simp add: example_env_def)
  have e: "get_from_long_term ''cli'' ''user_memos''
        (memory_manager (snd (route example_env example_remember_intent ''cli'' MasterRouter_init)))
       = Some (PList [PStr ''buy milk''])"
    unfolding r
    by (simp add: remember_this_def MasterRouter_init_def f Let_def)
       (simp add: add_to_short_term_def get_from_long_term_def Let_def)
  have g: "length (get_short_term_history ''cli''
        (memory_manager (snd (route example_env example_remember_intent ''cli'' MasterRouter_init)))) = 2"
    unfolding r
    by (simp add: remember_this_def MasterRouter_init_def f Let_def)
       (simp add: add_to_short_term_def get_short_term_history_def deque_append_def
          MemoryManager_init_def Let_def)
  show ?thesis using a b c d e g by blast
qed

section \<open>Parameters outside the signature\<close>

lemma restrict_map_extra:
  assumes "k \<notin> A"
  shows "(m(k \<mapsto> v)) |` A = m |` A"
  using assms by (simp add: restrict_map_def fun_eq_iff)

lemma restrict_map_outside:
  assumes "k \<notin> A"
  shows "(m |` A) k = None"
  using assms by (simp add: restrict_map_def)

lemma infer_and_store_memory_short_term:
  "short_term_memory (infer_and_store_memory env uid a b ps r m) = short_term_memory m
   \<and> stm_max_len (infer_and_store_memory env uid a b ps r m) = stm_max_len m"
  by (simp add: infer_and_store_memory_def add_to_long_term_def Let_def
        split: option.splits sum.splits pyval.splits)

lemma add_to_short_term_depends:
  assumes "short_term_memory m = short_term_memory m'" and "stm_max_len m = stm_max_len m'"
  shows "short_term_memory (add_to_short_term uid a b m)
           = short_term_memory (add_to_short_term uid a b m')"
  using assms by (simp add: add_to_short_term_def Let_def)

lemma recorded_after_inference:
  "short_term_memory (add_to_short_term uid a b (infer_and_store_memory env uid x y ps r m))
     = short_term_memory (add_to_short_term uid a b (infer_and_store_memory env uid x y ps' r m))"
  by (rule add_to_short_term_depends) (simp_all add: infer_and_store_memory_short_term)

lemma result_text_extra:
  assumes "act = ''get_file_content'' \<longrightarrow> k \<noteq> ''file_path''"
  shows "result_text env act (ps(k \<mapsto> v)) r = result_text env act ps r"
  using assms by (auto simp: result_text_def Let_def split: option.splits)

lemma infer_and_store_memory_extra:
  assumes "\<forall>r. memory_storage_inference env a b (ps(k \<mapsto> v)) r = memory_storage_inference env a b ps r"
  shows "infer_and_store_memory env uid a b (ps(k \<mapsto> v)) r m
           = infer_and_store_memory env uid a b ps r m"
proof -
  have eq: "memory_storage_inference env a b (ps(k \<mapsto> v)) r = memory_storage_inference env a b ps r"
    using assms by simp
  show ?thesis
    unfolding infer_and_store_memory_def eq by (rule refl)
qed

lemma route_call_extra_invoked:
  assumes "k \<notin> set (sig_parameters m)"
  shows "invoked (snd (route_call env (P \<lparr> params := (params P)(k \<mapsto> v) \<rparr>) uid m s))
           = invoked (snd (route_call env P uid m s))"
  using assms by (simp add: route_call_invoked restrict_map_extra)

lemma route_call_extra_response:
  assumes "k \<notin> set (sig_parameters m)"
    and "action P = ''get_file_content'' \<longrightarrow> k \<noteq> ''file_path''"
  shows "fst (route_call env (P \<lparr> params := (params P)(k \<mapsto> v) \<rparr>) uid m s)
           = fst (route_call env P uid m s)
       \<and> short_term_memory (memory_manager (snd (route_call env (P \<lparr> params := (params P)(k \<mapsto> v) \<rparr>) uid m s)))
           = short_term_memory (memory_manager (snd (route_call env P uid m s)))"
  using assms recorded_after_inference
  by (simp add: route_call_def Let_def restrict_map_extra result_text_extra split: sum.splits)

lemma route_call_extra_equal:
  assumes "k \<notin> set (sig_parameters m)"
    and "action P = ''get_file_content'' \<longrightarrow> k \<noteq> ''file_path''"
    and "\<forall>r. memory_storage_inference env (agent P) (action P) ((params P)(k \<mapsto> v)) r
               = memory_storage_inference env (agent P) (action P) (params P) r"
  shows "route_call env (P \<lparr> params := (params P)(k \<mapsto> v) \<rparr>) uid m s = route_call env P uid m s"
  using assms
  by (simp add: route_call_def Let_def restrict_map_extra result_text_extra
        infer_and_store_memory_extra split: sum.splits)

text \<open>
  Claim C7, as amended. Take a command for an agent other than the chat agent whose
  action resolves to an operation, and add a parameter whose key is not in the signature
  of the operation. The operation is called with the same arguments as without the key,
  which is not among them. Unless the key is \<open>file_path\<close> for the action
  \<open>get_file_content\<close>, the response, the short-term transcript and the pending commands
  are the same as without the key. What may differ is long-term memory: the memory
  inference is given the unfiltered parameters, and when its answer does not depend on
  the key the whole outcome, state included, is the same.
\<close>

theorem extra_parameter:
  fixes P :: parsed and k :: string and v :: pyval
  defines "P' \<equiv> P \<lparr> params := (params P)(k \<mapsto> v) \<rparr>"
  assumes nonchat: "agent P \<noteq> chat_agent_name env"
    and registered: "mcp_servers env (agent P) = Some h"
    and resolved: "h (action P) = Some m"
    and extra: "k \<notin> set (sig_parameters m)"
  shows "invoked (snd (route env P' uid s)) = invoked (snd (route env P uid s))
       \<and> invoked (snd (route env P uid s))
           = invoked s @ [(agent P, action P, Kwargs (params P |` set (sig_parameters m)))]
       \<and> (params P |` set (sig_parameters m)) k = None
       \<and> ((action P = ''get_file_content'' \<longrightarrow> k \<noteq> ''file_path'') \<longrightarrow>
            fst (route env P' uid s) = fst (route env P uid s)
            \<and> short_term_memory (memory_manager (snd (route env P' uid s)))
                = short_term_memory (memory_manager (snd (route env P uid s)))
            \<and> last_incomplete_command (snd (route env P' uid s))
                = last_incomplete_command (snd (route env P uid s)))
       \<and> ((action P = ''get_file_content'' \<longrightarrow> k \<noteq> ''file_path'')
            \<and> (\<forall>r. memory_storage_inference env (agent P) (action P) ((params P)(k \<mapsto> v)) r
                     = memory_storage_inference env (agent P) (action P) (params P) r) \<longrightarrow>
            route env P' uid s = route env P uid s)"
proof -
  have r: "route env P uid s = route_call env P uid m s"
    using nonchat registered resolved by (rule route_resolved)
  have r': "route env (P \<lparr> params := (params P)(k \<mapsto> v) \<rparr>) uid s
              = route_call env (P \<lparr> params := (params P)(k \<mapsto> v) \<rparr>) uid m s"
    using nonchat registered resolved by (simp add: route_resolved)
  have a: "invoked (snd (route env P' uid s)) = invoked (snd (route env P uid s))"
    unfolding P'_def r r' using extra by (rule route_call_extra_invoked)
  have b: "invoked (snd (route env P uid s))
           = invoked s @ [(agent P, action P, Kwargs (params P |` set (sig_parameters m)))]"
    unfolding r by (rule route_call_invoked)
  have c: "(params P |` set (sig_parameters m)) k = None"
    using extra by (rule restrict_map_outside)
  have d: "fst (route env P' uid s) = fst (route env P uid s)
            \<and> short_term_memory (memory_manager (snd (route env P' uid s)))
                = short_term_memory (memory_manager (snd (route env P uid s)))
            \<and> last_incomplete_command (snd (route env P' uid s))
                = last_incomplete_command (snd (route env P uid s))"
    if "action P = ''get_file_content'' \<longrightarrow> k \<noteq> ''file_path''"
    using route_call_extra_response [OF extra that, of env v uid s]
    unfolding P'_def r r' by (simp add: route_call_pending)
  have e: "route env P' uid s = route env P uid s"
    if "action P = ''get_file_content'' \<longrightarrow> k \<noteq> ''file_path''"
      and "\<forall>r. memory_storage_inference env (agent P) (action P) ((params P)(k \<mapsto> v)) r
                     = memory_storage_inference env (agent P) (action P) (params P) r"
    unfolding P'_def r r' using extra that by (rule route_call_extra_equal)
  show ?thesis using a b c d e by blast
qed

theorem extra_parameter_witness:
  "route example_env
     (example_list_intent \<lparr> params := (params example_list_intent)(''colour'' \<mapsto> PStr ''red'') \<rparr>)
     ''cli'' MasterRouter_init
     = route example_env example_list_intent ''cli'' MasterRouter_init
   \<and> ''colour'' \<notin> set (sig_parameters (the (example_git_agent ''list_repos'')))"
proof -
  have a: "agent example_list_intent \<noteq> chat_agent_name example_env"
    by (simp add: example_list_intent_def example_env_def)
  have h: "mcp_servers example_env (agent example_list_intent) = Some example_git_agent"
    by (simp add: example_list_intent_def example_env_def)
  have m: "example_git_agent (action example_list_intent) =
             Some \<lparr> sig_parameters = [],
                    call = (\<lambda>a. Inr (RDict [''result'' \<mapsto> PStr ''Found 2 repositories.''])) \<rparr>"
    by (simp add: example_list_intent_def example_git_agent_def)
  have k: "''colour'' \<notin> set (sig_parameters \<lparr> sig_parameters = [],
                    call = (\<lambda>a. Inr (RDict [''result'' \<mapsto> PStr ''Found 2 repositories.''])) \<rparr>)"
    by simp
  have g: "action example_list_intent = ''get_file_content'' \<longrightarrow> ''colour'' \<noteq> ''file_path''"
    by simp
  have i: "\<forall>r. memory_storage_inference example_env (agent example_list_intent)
                 (action example_list_intent)
                 ((params example_list_intent)(''colour'' \<mapsto> PStr ''red'')) r
             = memory_storage_inference example_env (agent example_list_intent)
                 (action example_list_intent) (params example_list_intent) r"
    by (simp add: example_env_def)
  have w1: "route example_env
     (example_list_intent \<lparr> params := (params example_list_intent)(''colour'' \<mapsto> PStr ''red'') \<rparr>)
     ''cli'' MasterRouter_init
     = route example_env example_list_intent ''cli'' MasterRouter_init"
    using extra_parameter [OF a h m k, where v = "PStr ''red''" and uid = "''cli''" and s = MasterRouter_init] g i by blast
  have w2: "''colour'' \<notin> set (sig_parameters (the (example_git_agent ''list_repos'')))"
    by (simp add: example_git_agent_def)
  show ?thesis using w1 w2 by (rule conjI)
qed

text \<open>
  The claim as stated fails: \<open>list_repos\<close> takes no parameter, so \<open>note\<close> is outside its
  signature; without the key nothing is stored in long-term memory, with it the memory
  inference, which is shown the parameters as they came, has the entry \<open>note\<close> stored.
\<close>

theorem extra_parameter_counterexample:
  "''note'' \<notin> set (sig_parameters (the (example_git_agent (action example_list_intent))))
   \<and> get_from_long_term ''cli'' ''note''
        (memory_manager (snd (route example_env example_list_intent ''cli'' MasterRouter_init))) = None
   \<and> get_from_long_term ''cli'' ''note''
        (memory_manager (snd (route example_env
           (example_list_intent \<lparr> params := (params example_list_intent)(''note'' \<mapsto> PStr ''x'') \<rparr>)
           ''cli'' MasterRouter_init))) = Some (PStr ''x'')"
proof -
  let ?m = "\<lparr> sig_parameters = [],
              call = (\<lambda>a. Inr (RDict [''result'' \<mapsto> PStr ''Found 2 repositories.''])) \<rparr>"
  let ?P' = "example_list_intent \<lparr> params := (params example_list_intent)(''note'' \<mapsto> PStr ''x'') \<rparr>"
  have a: "agent example_list_intent \<noteq> chat_agent_name example_env"
    by (simp add: example_list_intent_def example_env_def)
  have h: "mcp_servers example_env (agent example_list_intent) = Some example_git_agent"
    by (simp add: example_list_intent_def example_env_def)
  have m: "example_git_agent (action example_list_intent) = Some ?m"
    by (simp add: example_list_intent_def example_git_agent_def)
  have r: "route example_env example_list_intent ''cli'' MasterRouter_init
             = route_call example_env example_list_intent ''cli'' ?m MasterRouter_init"
    using a h m by (rule route_resolved)
  have r': "route example_env ?P' ''cli'' MasterRouter_init
             = route_call example_env ?P' ''cli'' ?m MasterRouter_init"
    using a h m by (simp add: route_resolved)
  have i: "infer_and_store_memory example_env ''cli'' ''git'' ''list_repos'' Map.empty
             [''result'' \<mapsto> PStr ''Found 2 repositories.''] (MemoryManager_init None)
           = MemoryManager_init None"
    by (simp add: infer_and_store_memory_def example_env_def str_strip_def is_whitespace_def)
  have i': "infer_and_store_memory example_env ''cli'' ''git'' ''list_repos'' [''note'' \<mapsto> PStr ''x'']
             [''result'' \<mapsto> PStr ''Found 2 repositories.''] (MemoryManager_init None)
           = add_to_long_term ''cli'' [''note'' \<mapsto> PStr ''x''] (MemoryManager_init None)"
    by (simp add: infer_and_store_memory_def example_env_def str_strip_def is_whitespace_def)
  have s: "''note'' \<notin> set (sig_parameters (the (example_git_agent (action example_list_intent))))"
    unfolding m by simp
  have n: "get_from_long_term ''cli'' ''note''
        (memory_manager (snd (route example_env example_list_intent ''cli'' MasterRouter_init))) = None"
    unfolding r
    by (simp add: route_call_def result_text_def Let_def example_list_intent_def
          MasterRouter_init_def i)
       (simp add: add_to_short_term_def get_from_long_term_def MemoryManager_init_def Let_def)
  have y: "get_from_long_term ''cli'' ''note''
        (memory_manager (snd (route example_env ?P' ''cli'' MasterRouter_init))) = Some (PStr ''x'')"
    unfolding r'
    by (simp add: route_call_def result_text_def Let_def example_list_intent_def
          MasterRouter_init_def i')
       (simp add: add_to_short_term_def add_to_long_term_def get_from_long_term_def
          MemoryManager_init_def Let_def)
  show ?thesis using s n y by blast
qed

end
